theory Spec2Isabelle
  imports Main
begin

section \<open>Query parameters (net/url Values) and the field-selection normalizer\<close>

text \<open>
  Go's \<^verbatim>\<open>url.Values\<close> is \<^verbatim>\<open>map[string][]string\<close>. A Go map value may be nil: reading
  a nil map yields the zero value, assigning to an entry of a nil map panics. The model
  keeps both: \<open>None\<close> is the nil map, \<open>Some m\<close> an allocated one.
\<close>

type_synonym Values = "(string \<rightharpoonup> string list) option"

datatype panic = AssignmentToEntryInNilMap

text \<open>
  \<^verbatim>\<open>func (v Values) Get(key string) string\<close>: the first value of the key, or the empty
  string when the key is absent or has no values.
\<close>

definition Values_Get :: "Values \<Rightarrow> string \<Rightarrow> string" where
  "Values_Get v key =
     (case v of
        None \<Rightarrow> ''''
      | Some m \<Rightarrow>
          (case m key of
             None \<Rightarrow> ''''
           | Some [] \<Rightarrow> ''''
           | Some (x # _) \<Rightarrow> x))"

text \<open>
  \<^verbatim>\<open>func (v Values) Set(key, value string)\<close> is \<^verbatim>\<open>v[key] = []string{value}\<close>: it replaces
  every existing value of the key, and panics on a nil map.
\<close>

definition Values_Set :: "Values \<Rightarrow> string \<Rightarrow> string \<Rightarrow> panic + Values" where
  "Values_Set v key val =
     (case v of
        None \<Rightarrow> Inl AssignmentToEntryInNilMap
      | Some m \<Rightarrow> Inr (Some (m(key \<mapsto> [val]))))"

text \<open>
  \<^verbatim>\<open>strings.Split(s, sep)\<close> for a separator of one byte, which is how the source calls it
  (\<^verbatim>\<open>","\<close>): the pieces between the separators, a single piece (possibly empty) when the
  separator does not occur.
\<close>

fun strings_Split :: "string \<Rightarrow> char \<Rightarrow> string list" where
  "strings_Split [] sep = [[]]"
| "strings_Split (c # cs) sep =
     (if c = sep then [] # strings_Split cs sep
      else (case strings_Split cs sep of
              [] \<Rightarrow> [[c]]
            | x # xs \<Rightarrow> (c # x) # xs))"

text \<open>The loop of \<^verbatim>\<open>ensureCorrectFieldsParam\<close> that looks for the entry \<^verbatim>\<open>type\<close>.\<close>

fun match_loop :: "string list \<Rightarrow> bool" where
  "match_loop [] = False"
| "match_loop (f # fs) = (if f = ''type'' then True else match_loop fs)"

text \<open>
  \<^verbatim>\<open>ensureCorrectFieldsParam(query *url.Values)\<close> mutates the map behind the pointer; the
  model returns the map after the call.
\<close>

definition ensureCorrectFieldsParam :: "Values \<Rightarrow> panic + Values" where
  "ensureCorrectFieldsParam query =
     (let fields = Values_Get query ''fields'' in
      if fields \<noteq> '''' then
        (if \<not> match_loop (strings_Split fields CHR '','')
         then Values_Set query ''fields'' (fields @ '',type'')
         else Inr query)
      else Inr query)"

section \<open>JSON documents and encoding/json decoding\<close>

text \<open>
  The source hands every body to \<^verbatim>\<open>encoding/json\<close>. A body is represented by the JSON
  document it contains: strings and object keys are the unquoted bytes, a number is its
  literal text (the decoder converts it only when it stores it), an object is the list of
  its members in document order (duplicate keys are legal JSON). A
  \<^verbatim>\<open>json.RawMessage\<close> holds such a document unparsed.
\<close>

datatype json =
    JNull
  | JBool bool
  | JNum string
  | JStr string
  | JArr "json list"
  | JObj "(string \<times> json) list"

text \<open>
  The Go types the source decodes into. A struct type lists its fields in declaration
  order as (Go field name, JSON key, type); the JSON key is the name in the
  \<^verbatim>\<open>json:"..."\<close> tag, or the field name when there is no tag. \<open>TInt\<close> is Go's
  \<^verbatim>\<open>int\<close> on a 64-bit platform.
\<close>

datatype gotype =
    TString
  | TInt
  | TBool
  | TTime
  | TRawMessage
  | TSlice gotype
  | TMap gotype
  | TStruct "(string \<times> string \<times> gotype) list"

text \<open>
  Go values of these types. A slice and a map may be nil (\<open>None\<close>); a struct value lists
  its fields by Go field name; a \<^verbatim>\<open>time.Time\<close> is kept as the text it was parsed from
  (\<open>None\<close> is the zero time).
\<close>

datatype goval =
    VString string
  | VInt int
  | VBool bool
  | VTime "string option"
  | VRawMessage "json option"
  | VSlice "goval list option"
  | VMap "(string \<times> goval) list option"
  | VStruct "(string \<times> goval) list"

text \<open>
  The errors of the decoder: a syntax error of the input (with the library's message), a
  JSON value that does not fit the Go type it is stored into (the \<^verbatim>\<open>Value\<close> and
  \<^verbatim>\<open>Type\<close> of Go's \<^verbatim>\<open>UnmarshalTypeError\<close>), and a failure of
  \<^verbatim>\<open>Time.UnmarshalJSON\<close> on the given element.
\<close>

datatype json_error =
    SyntaxError string
  | UnmarshalTypeError string gotype
  | TimeUnmarshalError json

text \<open>The zero value of a type: what \<^verbatim>\<open>var x T\<close> declares.\<close>

fun zero :: "gotype \<Rightarrow> goval"
  and zero_fields :: "(string \<times> string \<times> gotype) list \<Rightarrow> (string \<times> goval) list" where
  "zero TString = VString ''''"
| "zero TInt = VInt 0"
| "zero TBool = VBool False"
| "zero TTime = VTime None"
| "zero TRawMessage = VRawMessage None"
| "zero (TSlice t) = VSlice None"
| "zero (TMap t) = VMap None"
| "zero (TStruct fs) = VStruct (zero_fields fs)"
| "zero_fields [] = []"
| "zero_fields ((name, tag, t) # fs) = (name, zero t) # zero_fields fs"

subsection \<open>Matching an object key to a struct field\<close>

text \<open>
  The decoder prefers the field whose JSON name equals the key and otherwise takes the
  first field whose name equals it under case folding. Folding maps ASCII letters to upper
  case; the only non-ASCII characters that fold to an ASCII letter are U+017F (bytes C5 BF,
  folds to S) and U+212A (bytes E2 84 AA, folds to K). Every field name of the source is
  ASCII, so any other non-ASCII byte, left as it is here, makes the comparison fail as it
  does in Go.
\<close>

definition upper_byte :: "char \<Rightarrow> char" where
  "upper_byte c =
     (let n = (of_char c :: nat) in if 97 \<le> n \<and> n \<le> 122 then char_of (n - 32) else c)"

fun foldName :: "string \<Rightarrow> string" where
  "foldName [] = []"
| "foldName (c # cs) =
     (if (of_char c :: nat) < 128 then upper_byte c # foldName cs
      else (case c # cs of
              c1 # c2 # cs' \<Rightarrow>
                if (of_char c1 :: nat) = 197 \<and> (of_char c2 :: nat) = 191 then CHR ''S'' # foldName cs'
                else (case cs' of
                        c3 # cs'' \<Rightarrow>
                          if (of_char c1 :: nat) = 226 \<and> (of_char c2 :: nat) = 132 \<and> (of_char c3 :: nat) = 170
                          then CHR ''K'' # foldName cs''
                          else c # foldName cs
                      | [] \<Rightarrow> c # foldName cs)
            | _ \<Rightarrow> c # foldName cs))"

fun find_exact :: "(string \<times> string \<times> gotype) list \<Rightarrow> string \<Rightarrow> (string \<times> gotype) option" where
  "find_exact [] key = None"
| "find_exact ((name, tag, t) # fs) key =
     (if tag = key then Some (name, t) else find_exact fs key)"

fun find_folded :: "(string \<times> string \<times> gotype) list \<Rightarrow> string \<Rightarrow> (string \<times> gotype) option" where
  "find_folded [] key = None"
| "find_folded ((name, tag, t) # fs) key =
     (if foldName tag = foldName key then Some (name, t) else find_folded fs key)"

definition find_field :: "(string \<times> string \<times> gotype) list \<Rightarrow> string \<Rightarrow> (string \<times> gotype) option" where
  "find_field fs key =
     (case find_exact fs key of
        Some f \<Rightarrow> Some f
      | None \<Rightarrow> find_folded fs key)"

subsection \<open>Storing literals\<close>

text \<open>
  \<^verbatim>\<open>strconv.ParseInt(s, 10, 64)\<close>, which the decoder applies to a number literal stored
  into an \<^verbatim>\<open>int\<close>: an optional sign, then decimal digits only, within the range of
  \<^verbatim>\<open>int64\<close>.
\<close>

fun digit_val :: "char \<Rightarrow> nat option" where
  "digit_val c =
     (let n = (of_char c :: nat) in if 48 \<le> n \<and> n \<le> 57 then Some (n - 48) else None)"

fun parse_digits :: "nat \<Rightarrow> string \<Rightarrow> nat option" where
  "parse_digits acc [] = Some acc"
| "parse_digits acc (c # cs) =
     (case digit_val c of
        None \<Rightarrow> None
      | Some d \<Rightarrow> parse_digits (acc * 10 + d) cs)"

definition strconv_ParseInt64 :: "string \<Rightarrow> int option" where
  "strconv_ParseInt64 s =
     (case s of
        [] \<Rightarrow> None
      | c # cs \<Rightarrow>
          (let neg = (c = CHR ''-'');
               ds = (if c = CHR ''-'' \<or> c = CHR ''+'' then cs else s)
           in if ds = [] then None
              else (case parse_digits 0 ds of
                      None \<Rightarrow> None
                    | Some n \<Rightarrow>
                        (let i = (if neg then - int n else int n)
                         in if - (2 ^ 63) \<le> i \<and> i < 2 ^ 63 then Some i else None))))"

text \<open>
  A value that does not fit its target is not fatal: the decoder remembers the first such
  error, leaves the target as it is, goes on, and reports the error at the end.
\<close>

fun save_error :: "json_error option \<Rightarrow> json_error \<Rightarrow> json_error option" where
  "save_error None e = Some e"
| "save_error (Some e0) e = Some e0"

definition type_error :: "goval \<Rightarrow> json_error option \<Rightarrow> string \<Rightarrow> gotype
      \<Rightarrow> json_error + (goval \<times> json_error option)" where
  "type_error v s val t = Inr (v, save_error s (UnmarshalTypeError val t))"

text \<open>
  \<^verbatim>\<open>Time.UnmarshalJSON\<close>: \<^verbatim>\<open>null\<close> is a no-op, a string is parsed as RFC 3339, anything
  else is an error; its errors stop the decoder at once. Which strings parse is the
  parameter \<open>tp\<close>.
\<close>

definition decode_time :: "(string \<Rightarrow> bool) \<Rightarrow> json \<Rightarrow> goval \<Rightarrow> json_error option
      \<Rightarrow> json_error + (goval \<times> json_error option)" where
  "decode_time tp j v s =
     (case j of
        JNull \<Rightarrow> Inr (v, s)
      | JStr x \<Rightarrow> if tp x then Inr (VTime (Some x), s) else Inl (TimeUnmarshalError j)
      | _ \<Rightarrow> Inl (TimeUnmarshalError j))"

text \<open>\<^verbatim>\<open>null\<close> resets a slice or a map to nil and leaves every other target unchanged.\<close>

fun decode_null :: "gotype \<Rightarrow> goval \<Rightarrow> goval" where
  "decode_null (TSlice et) v = VSlice None"
| "decode_null (TMap et) v = VMap None"
| "decode_null t v = v"

fun decode_literal :: "gotype \<Rightarrow> json \<Rightarrow> goval \<Rightarrow> json_error option
      \<Rightarrow> json_error + (goval \<times> json_error option)" where
  "decode_literal t JNull v s = Inr (decode_null t v, s)"
| "decode_literal TBool (JBool b) v s = Inr (VBool b, s)"
| "decode_literal t (JBool b) v s = type_error v s ''bool'' t"
| "decode_literal TString (JStr x) v s = Inr (VString x, s)"
| "decode_literal t (JStr x) v s = type_error v s ''string'' t"
| "decode_literal TInt (JNum n) v s =
     (case strconv_ParseInt64 n of
        Some i \<Rightarrow> Inr (VInt i, s)
      | None \<Rightarrow> type_error v s (''number '' @ n) TInt)"
| "decode_literal t (JNum n) v s = type_error v s ''number'' t"
| "decode_literal t (JArr js) v s = type_error v s ''array'' t"
| "decode_literal t (JObj kvs) v s = type_error v s ''object'' t"

subsection \<open>Decoding a value into a target\<close>

fun field_value :: "(string \<times> goval) list \<Rightarrow> string \<Rightarrow> gotype \<Rightarrow> goval" where
  "field_value cur name t = (case map_of cur name of Some x \<Rightarrow> x | None \<Rightarrow> zero t)"

fun set_field :: "(string \<times> goval) list \<Rightarrow> string \<Rightarrow> goval \<Rightarrow> (string \<times> goval) list" where
  "set_field [] name x = [(name, x)]"
| "set_field ((n, y) # cur) name x =
     (if n = name then (n, x) # cur else (n, y) # set_field cur name x)"

fun struct_fields :: "(string \<times> string \<times> gotype) list \<Rightarrow> goval \<Rightarrow> (string \<times> goval) list" where
  "struct_fields fs (VStruct cur) = cur"
| "struct_fields fs v = zero_fields fs"

fun map_entries :: "goval \<Rightarrow> (string \<times> goval) list" where
  "map_entries (VMap (Some m)) = m"
| "map_entries v = []"

text \<open>
  A target type with its own \<^verbatim>\<open>UnmarshalJSON\<close> receives the element whatever its kind:
  \<^verbatim>\<open>json.RawMessage\<close> stores it, \<^verbatim>\<open>time.Time\<close> parses it.
\<close>

fun unmarshaler :: "(string \<Rightarrow> bool) \<Rightarrow> gotype \<Rightarrow> json \<Rightarrow> goval \<Rightarrow> json_error option
      \<Rightarrow> (json_error + (goval \<times> json_error option)) option" where
  "unmarshaler tp TRawMessage j v s = Some (Inr (VRawMessage (Some j), s))"
| "unmarshaler tp TTime j v s = Some (decode_time tp j v s)"
| "unmarshaler tp t j v s = None"

text \<open>
  \<open>decode_value tp t j v s\<close> stores the element \<open>j\<close> into a target of type \<open>t\<close> that
  currently holds \<open>v\<close>; \<open>s\<close> is the error remembered so far. \<open>Inl\<close> is a fatal error,
  \<open>Inr\<close> the new target value and the remembered error. An array is stored into a slice
  element by element, each decoded into a zero element, as the package documentation
  describes; an object is stored into a struct member by member, a member that matches no
  field being skipped and a later duplicate of a key decoding into the field again; into a
  map, each member's value is decoded into a fresh zero element and put under its key.
\<close>

function decode_value :: "(string \<Rightarrow> bool) \<Rightarrow> gotype \<Rightarrow> json \<Rightarrow> goval \<Rightarrow> json_error option
      \<Rightarrow> json_error + (goval \<times> json_error option)"
  and decode_array :: "(string \<Rightarrow> bool) \<Rightarrow> gotype \<Rightarrow> json list \<Rightarrow> json_error option
      \<Rightarrow> json_error + (goval list \<times> json_error option)"
  and decode_struct :: "(string \<Rightarrow> bool) \<Rightarrow> (string \<times> string \<times> gotype) list \<Rightarrow> (string \<times> json) list
      \<Rightarrow> (string \<times> goval) list \<Rightarrow> json_error option
      \<Rightarrow> json_error + ((string \<times> goval) list \<times> json_error option)"
  and decode_map :: "(string \<Rightarrow> bool) \<Rightarrow> gotype \<Rightarrow> (string \<times> json) list
      \<Rightarrow> (string \<times> goval) list \<Rightarrow> json_error option
      \<Rightarrow> json_error + ((string \<times> goval) list \<times> json_error option)" where
  "decode_value tp t (JArr js) v s =
     (case unmarshaler tp t (JArr js) v s of
        Some r \<Rightarrow> r
      | None \<Rightarrow>
          (case t of
             TSlice et \<Rightarrow>
               (case decode_array tp et js s of
                  Inl e \<Rightarrow> Inl e
                | Inr (xs, s') \<Rightarrow> Inr (VSlice (Some xs), s'))
           | _ \<Rightarrow> type_error v s ''array'' t))"
| "decode_value tp t (JObj kvs) v s =
     (case unmarshaler tp t (JObj kvs) v s of
        Some r \<Rightarrow> r
      | None \<Rightarrow>
          (case t of
             TStruct fs \<Rightarrow>
               (case decode_struct tp fs kvs (struct_fields fs v) s of
                  Inl e \<Rightarrow> Inl e
                | Inr (cur, s') \<Rightarrow> Inr (VStruct cur, s'))
           | TMap et \<Rightarrow>
               (case decode_map tp et kvs (map_entries v) s of
                  Inl e \<Rightarrow> Inl e
                | Inr (m, s') \<Rightarrow> Inr (VMap (Some m), s'))
           | _ \<Rightarrow> type_error v s ''object'' t))"
| "decode_value tp t JNull v s =
     (case unmarshaler tp t JNull v s of Some r \<Rightarrow> r | None \<Rightarrow> decode_literal t JNull v s)"
| "decode_value tp t (JBool b) v s =
     (case unmarshaler tp t (JBool b) v s of Some r \<Rightarrow> r | None \<Rightarrow> decode_literal t (JBool b) v s)"
| "decode_value tp t (JNum n) v s =
     (case unmarshaler tp t (JNum n) v s of Some r \<Rightarrow> r | None \<Rightarrow> decode_literal t (JNum n) v s)"
| "decode_value tp t (JStr x) v s =
     (case unmarshaler tp t (JStr x) v s of Some r \<Rightarrow> r | None \<Rightarrow> decode_literal t (JStr x) v s)"
| "decode_array tp et [] s = Inr ([], s)"
| "decode_array tp et (j # js) s =
     (case decode_value tp et j (zero et) s of
        Inl e \<Rightarrow> Inl e
      | Inr (x, s') \<Rightarrow>
          (case decode_array tp et js s' of
             Inl e \<Rightarrow> Inl e
           | Inr (xs, s'') \<Rightarrow> Inr (x # xs, s'')))"
| "decode_struct tp fs [] cur s = Inr (cur, s)"
| "decode_struct tp fs ((key, j) # kvs) cur s =
     (case find_field fs key of
        None \<Rightarrow> decode_struct tp fs kvs cur s
      | Some (name, t) \<Rightarrow>
          (case decode_value tp t j (field_value cur name t) s of
             Inl e \<Rightarrow> Inl e
           | Inr (x, s') \<Rightarrow> decode_struct tp fs kvs (set_field cur name x) s'))"
| "decode_map tp et [] m s = Inr (m, s)"
| "decode_map tp et ((key, j) # kvs) m s =
     (case decode_value tp et j (zero et) s of
        Inl e \<Rightarrow> Inl e
      | Inr (x, s') \<Rightarrow> decode_map tp et kvs (set_field m key x) s')"
  by pat_completeness auto

termination
  apply (relation "measure (\<lambda>x. case x of
            Inl (Inl (tp, t, j, v, s)) \<Rightarrow> 2 * size j + 1
          | Inl (Inr (tp, et, js, s)) \<Rightarrow> 2 * size (JArr js)
          | Inr (Inl (tp, fs, kvs, cur, s)) \<Rightarrow> 2 * size (JObj kvs)
          | Inr (Inr (tp, et, kvs, m, s)) \<Rightarrow> 2 * size (JObj kvs))")
  apply auto
  done

text \<open>
  \<^verbatim>\<open>json.Unmarshal(data, &x)\<close> for a freshly declared \<^verbatim>\<open>x\<close> of type \<open>t\<close>, as every call
  of the source is: the decoded value, or the fatal or first remembered error. (Go leaves
  a partly filled \<^verbatim>\<open>x\<close> behind on an error; the source never reads it then.)
\<close>

definition json_Unmarshal :: "(string \<Rightarrow> bool) \<Rightarrow> gotype \<Rightarrow> json \<Rightarrow> json_error + goval" where
  "json_Unmarshal tp t j =
     (case decode_value tp t j (zero t) None of
        Inl e \<Rightarrow> Inl e
      | Inr (v, Some e) \<Rightarrow> Inl e
      | Inr (v, None) \<Rightarrow> Inr v)"

text \<open>
  \<^verbatim>\<open>json.NewDecoder(body).Decode(&x)\<close> reads the first JSON value of the stream and
  unmarshals it. A body is \<open>Inr j\<close> when its first value is the document \<open>j\<close> and
  \<open>Inl e\<close> when reading that value fails with \<open>e\<close> (end of input, syntax error).
\<close>

type_synonym body = "json_error + json"

definition Decoder_Decode :: "(string \<Rightarrow> bool) \<Rightarrow> gotype \<Rightarrow> body \<Rightarrow> json_error + goval" where
  "Decoder_Decode tp t b =
     (case b of
        Inl e \<Rightarrow> Inl e
      | Inr j \<Rightarrow> json_Unmarshal tp t j)"

text \<open>
  \<^verbatim>\<open>json.Unmarshal\<close> of a \<^verbatim>\<open>json.RawMessage\<close>; a nil message is empty input.
\<close>

definition Unmarshal_raw :: "(string \<Rightarrow> bool) \<Rightarrow> gotype \<Rightarrow> json option \<Rightarrow> json_error + goval" where
  "Unmarshal_raw tp t h =
     (case h of
        None \<Rightarrow> Inl (SyntaxError ''unexpected end of JSON input'')
      | Some j \<Rightarrow> json_Unmarshal tp t j)"

text \<open>Reading fields of a decoded struct value.\<close>

definition field :: "goval \<Rightarrow> string \<Rightarrow> goval option" where
  "field v name = (case v of VStruct cur \<Rightarrow> map_of cur name | _ \<Rightarrow> None)"

definition string_field :: "goval \<Rightarrow> string \<Rightarrow> string" where
  "string_field v name = (case field v name of Some (VString x) \<Rightarrow> x | _ \<Rightarrow> '''')"

definition int_field :: "goval \<Rightarrow> string \<Rightarrow> int" where
  "int_field v name = (case field v name of Some (VInt i) \<Rightarrow> i | _ \<Rightarrow> 0)"

definition raw_slice_field :: "goval \<Rightarrow> string \<Rightarrow> json option list" where
  "raw_slice_field v name =
     (case field v name of
        Some (VSlice (Some xs)) \<Rightarrow> map (\<lambda>x. case x of VRawMessage r \<Rightarrow> r | _ \<Rightarrow> None) xs
      | _ \<Rightarrow> [])"

section \<open>The hit types\<close>

text \<open>
  The struct types of the hits, field by field as they are declared, with the JSON keys of
  their tags. \<^verbatim>\<open>Tags\<close> is \<^verbatim>\<open>map[string][]string\<close>.
\<close>

definition Tags_t :: gotype where
  "Tags_t = TMap (TSlice TString)"

definition Team_t :: gotype where
  "Team_t = TStruct [
      (''Name'', ''name'', TString),
      (''NID'', ''nid'', TString)]"

definition LocalizedImage_t :: gotype where
  "LocalizedImage_t = TStruct [
      (''Caption'', ''caption'', TString),
      (''Copyright'', ''copyright'', TString),
      (''Language'', ''language'', TString),
      (''URL'', ''url'', TString)]"

definition Image_t :: gotype where
  "Image_t = TStruct [
      (''Caption'', ''caption'', TString),
      (''Copyright'', ''copyright'', TString),
      (''Localizations'', ''localizations'', TSlice LocalizedImage_t),
      (''URL'', ''url'', TString)]"

definition ExternalReference_t :: gotype where
  "ExternalReference_t = TStruct [
      (''Locator'', ''locator'', TString),
      (''Type'', ''type'', TString),
      (''Value'', ''value'', TString)]"

definition Genre_t :: gotype where
  "Genre_t = TStruct [
      (''Main'', ''main'', TString),
      (''Sub'', ''sub'', TSlice TString)]"

definition Brand_t :: gotype where
  "Brand_t = TStruct [
      (''Cinemascope'', ''cinemascope'', Image_t),
      (''Country'', ''country'', TSlice TString),
      (''DescriptionExtendedDa'', ''description_extended_da'', TString),
      (''DescriptionExtendedFi'', ''description_extended_fi'', TString),
      (''DescriptionExtendedNb'', ''description_extended_nb'', TString),
      (''DescriptionExtendedSv'', ''description_extended_sv'', TString),
      (''DescriptionLongDa'', ''description_long_da'', TString),
      (''DescriptionLongFi'', ''description_long_fi'', TString),
      (''DescriptionLongNb'', ''description_long_nb'', TString),
      (''DescriptionLongSv'', ''description_long_sv'', TString),
      (''DescriptionMediumDa'', ''description_medium_da'', TString),
      (''DescriptionMediumFi'', ''description_medium_fi'', TString),
      (''DescriptionMediumNb'', ''description_medium_nb'', TString),
      (''DescriptionMediumSv'', ''description_medium_sv'', TString),
      (''DescriptionShortDa'', ''description_short_da'', TString),
      (''DescriptionShortFi'', ''description_short_fi'', TString),
      (''DescriptionShortNb'', ''description_short_nb'', TString),
      (''DescriptionShortSv'', ''description_short_sv'', TString),
      (''DescriptionTinyDa'', ''description_tiny_da'', TString),
      (''DescriptionTinyFi'', ''description_tiny_fi'', TString),
      (''DescriptionTinyNb'', ''description_tiny_nb'', TString),
      (''DescriptionTinySv'', ''description_tiny_sv'', TString),
      (''ExternalReferences'', ''external_references'', TSlice ExternalReference_t),
      (''Genres'', ''genres'', TSlice Genre_t),
      (''ID'', ''id'', TString),
      (''Landscape'', ''landscape'', Image_t),
      (''Poster'', ''poster'', Image_t),
      (''Studio'', ''studio'', TString),
      (''TitleDa'', ''title_da'', TString),
      (''TitleFi'', ''title_fi'', TString),
      (''TitleNb'', ''title_nb'', TString),
      (''TitleSv'', ''title_sv'', TString)]"

definition Credit_t :: gotype where
  "Credit_t = TStruct [
      (''Function'', ''function'', TString),
      (''NID'', ''nid'', TString),
      (''Name'', ''name'', TString),
      (''Rolename'', ''rolename'', TString)]"

definition Event_t :: gotype where
  "Event_t = TStruct [
      (''Site'', ''site'', TString),
      (''DeviceTypes'', ''device_types'', TSlice TString),
      (''Products'', ''products'', TSlice TString),
      (''StartTime'', ''start_time'', TTime),
      (''EndTime'', ''end_time'', TTime),
      (''PublishTime'', ''publish_time'', TTime)]"

definition OriginalTitle_t :: gotype where
  "OriginalTitle_t = TStruct [
      (''Language'', ''language'', TString),
      (''Text'', ''text'', TString),
      (''Type'', ''type'', TString)]"

definition ParentalRating_t :: gotype where
  "ParentalRating_t = TStruct [
      (''Country'', ''country'', TString),
      (''System'', ''system'', TString),
      (''Value'', ''value'', TString)]"

definition LocationRestrictions_t :: gotype where
  "LocationRestrictions_t = TStruct [
      (''IncludeCountries'', ''include_countries'', TSlice TString)]"

definition LocationRights_t :: gotype where
  "LocationRights_t = TStruct [
      (''LocationRestrictions'', ''location_restrictions'', LocationRestrictions_t),
      (''Product'', ''product'', TString)]"

definition PublicationRights_t :: gotype where
  "PublicationRights_t = TStruct [
      (''LocationRights'', ''location_rights'', LocationRights_t)]"

definition Season_t :: gotype where
  "Season_t = TStruct [
      (''Cinemascope'', ''cinemascope'', Image_t),
      (''Country'', ''country'', TSlice TString),
      (''DescriptionExtendedDa'', ''description_extended_da'', TString),
      (''DescriptionExtendedFi'', ''description_extended_fi'', TString),
      (''DescriptionExtendedNb'', ''description_extended_nb'', TString),
      (''DescriptionExtendedSv'', ''description_extended_sv'', TString),
      (''DescriptionLongDa'', ''description_long_da'', TString),
      (''DescriptionLongFi'', ''description_long_fi'', TString),
      (''DescriptionLongNb'', ''description_long_nb'', TString),
      (''DescriptionLongSv'', ''description_long_sv'', TString),
      (''DescriptionMediumDa'', ''description_medium_da'', TString),
      (''DescriptionMediumFi'', ''description_medium_fi'', TString),
      (''DescriptionMediumNb'', ''description_medium_nb'', TString),
      (''DescriptionMediumSv'', ''description_medium_sv'', TString),
      (''DescriptionShortDa'', ''description_short_da'', TString),
      (''DescriptionShortFi'', ''description_short_fi'', TString),
      (''DescriptionShortNb'', ''description_short_nb'', TString),
      (''DescriptionShortSv'', ''description_short_sv'', TString),
      (''DescriptionTinyDa'', ''description_tiny_da'', TString),
      (''DescriptionTinyFi'', ''description_tiny_fi'', TString),
      (''DescriptionTinyNb'', ''description_tiny_nb'', TString),
      (''DescriptionTinySv'', ''description_tiny_sv'', TString),
      (''ExternalReferences'', ''external_references'', TSlice ExternalReference_t),
      (''Genres'', ''genres'', TSlice Genre_t),
      (''ID'', ''id'', TString),
      (''Landscape'', ''landscape'', Image_t),
      (''Number'', ''season_number'', TInt),
      (''NumberOfEpisodes'', ''number_of_episodes'', TInt),
      (''Poster'', ''poster'', Image_t),
      (''Studio'', ''studio'', TString),
      (''TitleDa'', ''title_da'', TString),
      (''TitleFi'', ''title_fi'', TString),
      (''TitleNb'', ''title_nb'', TString),
      (''TitleSv'', ''title_sv'', TString)]"

definition Asset_t :: gotype where
  "Asset_t = TStruct [
      (''Arena'', ''arena'', TString),
      (''AwayTeam'', ''awayteam'', Team_t),
      (''Brand'', ''brand'', Brand_t),
      (''Cinemascope'', ''cinemascope'', Image_t),
      (''ContentSource'', ''content_source'', TString),
      (''Country'', ''country'', TSlice TString),
      (''Credits'', ''credits'', TSlice Credit_t),
      (''DRMRestrictions'', ''drm_restrictions'', TBool),
      (''DescriptionExtendedDa'', ''description_extended_da'', TString),
      (''DescriptionExtendedFi'', ''description_extended_fi'', TString),
      (''DescriptionExtendedNb'', ''description_extended_nb'', TString),
      (''DescriptionExtendedSv'', ''description_extended_sv'', TString),
      (''DescriptionLongDa'', ''description_long_da'', TString),
      (''DescriptionLongFi'', ''description_long_fi'', TString),
      (''DescriptionLongNb'', ''description_long_nb'', TString),
      (''DescriptionLongSv'', ''description_long_sv'', TString),
      (''DescriptionMediumDa'', ''description_medium_da'', TString),
      (''DescriptionMediumFi'', ''description_medium_fi'', TString),
      (''DescriptionMediumNb'', ''description_medium_nb'', TString),
      (''DescriptionMediumSv'', ''description_medium_sv'', TString),
      (''DescriptionShortDa'', ''description_short_da'', TString),
      (''DescriptionShortFi'', ''description_short_fi'', TString),
      (''DescriptionShortNb'', ''description_short_nb'', TString),
      (''DescriptionShortSv'', ''description_short_sv'', TString),
      (''DescriptionTinyDa'', ''description_tiny_da'', TString),
      (''DescriptionTinyFi'', ''description_tiny_fi'', TString),
      (''DescriptionTinyNb'', ''description_tiny_nb'', TString),
      (''DescriptionTinySv'', ''description_tiny_sv'', TString),
      (''Duration'', ''duration'', TInt),
      (''EpisodeNumber'', ''episode_number'', TInt),
      (''Events'', ''events'', TSlice Event_t),
      (''ExternalReferences'', ''external_references'', TSlice ExternalReference_t),
      (''Genres'', ''genres'', TSlice Genre_t),
      (''HomeTeam'', ''hometeam'', Team_t),
      (''ItemsPublished'', ''items_published'', TBool),
      (''KeywordsDa'', ''keywords_dk'', TSlice TString),
      (''KeywordsFi'', ''keywords_fi'', TSlice TString),
      (''KeywordsNb'', ''keywords_nb'', TSlice TString),
      (''KeywordsSv'', ''keywords_sv'', TSlice TString),
      (''Landscape'', ''landscape'', Image_t),
      (''Live'', ''live'', TBool),
      (''LiveEventEnd'', ''live_event_end'', TTime),
      (''LogoAwayTeam'', ''logoawayteam'', Image_t),
      (''LogoHomeTeam'', ''logohometeam'', Image_t),
      (''MLTNIDs'', ''mlt_nids'', TSlice TString),
      (''OriginalTitle'', ''original_title'', OriginalTitle_t),
      (''ParentalRatings'', ''parental_ratings'', TSlice ParentalRating_t),
      (''Poster'', ''poster'', Image_t),
      (''ProductionYear'', ''production_year'', TString),
      (''PublicationRights'', ''publication_rights'', PublicationRights_t),
      (''Season'', ''season'', Season_t),
      (''SpokenLanguages'', ''spoken_languages'', TSlice TString),
      (''Studio'', ''studio'', TString),
      (''Tags'', ''tags'', Tags_t),
      (''Timestamp'', ''timestamp'', TString),
      (''TitleDa'', ''title_da'', TString),
      (''TitleFi'', ''title_fi'', TString),
      (''TitleNb'', ''title_nb'', TString),
      (''TitleSv'', ''title_sv'', TString),
      (''Type'', ''type'', TString),
      (''VMANID'', ''vman_id'', TString),
      (''VideoID'', ''video_id'', TString)]"

definition Series_t :: gotype where
  "Series_t = TStruct [
      (''BrandID'', ''brand_id'', TString),
      (''Cinemascope'', ''cinemascope'', Image_t),
      (''ContentSource'', ''content_source'', TString),
      (''Country'', ''country'', TSlice TString),
      (''Credits'', ''credits'', TSlice Credit_t),
      (''DescriptionExtendedDa'', ''description_extended_da'', TString),
      (''DescriptionExtendedFi'', ''description_extended_fi'', TString),
      (''DescriptionExtendedNb'', ''description_extended_nb'', TString),
      (''DescriptionExtendedSv'', ''description_extended_sv'', TString),
      (''DescriptionLongDa'', ''description_long_da'', TString),
      (''DescriptionLongFi'', ''description_long_fi'', TString),
      (''DescriptionLongNb'', ''description_long_nb'', TString),
      (''DescriptionLongSv'', ''description_long_sv'', TString),
      (''DescriptionMediumDa'', ''description_medium_da'', TString),
      (''DescriptionMediumFi'', ''description_medium_fi'', TString),
      (''DescriptionMediumNb'', ''description_medium_nb'', TString),
      (''DescriptionMediumSv'', ''description_medium_sv'', TString),
      (''DescriptionShortDa'', ''description_short_da'', TString),
      (''DescriptionShortFi'', ''description_short_fi'', TString),
      (''DescriptionShortNb'', ''description_short_nb'', TString),
      (''DescriptionShortSv'', ''description_short_sv'', TString),
      (''DescriptionTinyDa'', ''description_tiny_da'', TString),
      (''DescriptionTinyFi'', ''description_tiny_fi'', TString),
      (''DescriptionTinyNb'', ''description_tiny_nb'', TString),
      (''DescriptionTinySv'', ''description_tiny_sv'', TString),
      (''Events'', ''events'', TSlice Event_t),
      (''ExternalReferences'', ''external_references'', TSlice ExternalReference_t),
      (''Genres'', ''genres'', TSlice Genre_t),
      (''ID'', ''id'', TString),
      (''KeywordsDa'', ''keywords_dk'', TSlice TString),
      (''KeywordsFi'', ''keywords_fi'', TSlice TString),
      (''KeywordsNb'', ''keywords_nb'', TSlice TString),
      (''KeywordsSv'', ''keywords_sv'', TSlice TString),
      (''Landscape'', ''landscape'', Image_t),
      (''Poster'', ''poster'', Image_t),
      (''Seasons'', ''seasons'', TSlice TInt),
      (''SpokenLanguages'', ''spoken_languages'', TSlice TString),
      (''Studio'', ''studio'', TString),
      (''Tags'', ''tags'', Tags_t),
      (''Timestamp'', ''timestamp'', TString),
      (''TitleDa'', ''title_da'', TString),
      (''TitleFi'', ''title_fi'', TString),
      (''TitleNb'', ''title_nb'', TString),
      (''TitleSv'', ''title_sv'', TString),
      (''Type'', ''type'', TString)]"


section \<open>Requests, responses and errors\<close>

text \<open>
  \<^verbatim>\<open>url.URL\<close> with the fields of the standard library; \<^verbatim>\<open>User\<close> is the optional
  user name with its optional password.
\<close>

record URL =
  Scheme :: string
  Opaque :: string
  User :: "(string \<times> string option) option"
  Host :: string
  Path :: string
  RawPath :: string
  OmitHost :: bool
  ForceQuery :: bool
  RawQuery :: string
  Fragment :: string
  RawFragment :: string

type_synonym Header = "string \<rightharpoonup> string list"

text \<open>
  What the source reads of an \<^verbatim>\<open>http.Request\<close> and of an \<^verbatim>\<open>http.Response\<close>. The
  request carries its context, of an arbitrary type \<open>'c\<close>.
\<close>

record 'c Request =
  Method :: string
  req_URL :: URL
  req_Header :: Header
  Context :: 'c

record HTTPResponse =
  resp_StatusCode :: int
  resp_Header :: Header
  resp_Body :: body

text \<open>\<^verbatim>\<open>Meta\<close> as \<^verbatim>\<open>Search\<close> and \<^verbatim>\<open>makeResponse\<close> build it; the zero value has no header map and no URL.\<close>

record Meta =
  StatusCode :: int
  Header :: "Header option"
  RequestURL :: "URL option"

text \<open>
  A \<^verbatim>\<open>Hit\<close> is an empty interface that holds a pointer to a freshly decoded
  \<^verbatim>\<open>Series\<close> or \<^verbatim>\<open>Asset\<close>.
\<close>

datatype Hit = SeriesHit goval | AssetHit goval

record Response =
  TotalHits :: int
  Hits :: "Hit list"
  Meta :: Meta

definition Meta_zero :: Meta where
  "Meta_zero = \<lparr>StatusCode = 0, Header = None, RequestURL = None\<rparr>"

text \<open>\<^verbatim>\<open>Response{}\<close> and \<^verbatim>\<open>Response{Meta: meta}\<close>.\<close>

definition Response_zero :: Response where
  "Response_zero = \<lparr>TotalHits = 0, Hits = [], Meta = Meta_zero\<rparr>"

definition Response_Meta :: "Meta \<Rightarrow> Response" where
  "Response_Meta meta = \<lparr>TotalHits = 0, Hits = [], Meta = meta\<rparr>"

text \<open>
  Modelled from the spec: the declaration of \<^verbatim>\<open>APIError\<close> is not among the sources. The
  spec describes it as a record with a \<^verbatim>\<open>message\<close> string and an optional \<^verbatim>\<open>code\<close>
  that is a string or an integer, kept here as the service reported it.
\<close>

definition APIError_t :: gotype where
  "APIError_t = TStruct [
      (''Message'', ''message'', TString),
      (''Code'', ''code'', TRawMessage)]"

text \<open>
  The error values: the three sentinels of the source, the results of \<^verbatim>\<open>fmt.Errorf\<close>
  (an error that is its text), a decoder error, a pointer to a decoded \<^verbatim>\<open>APIError\<close>,
  and the errors of the URL and HTTP libraries and of the transport, named by their text.
\<close>

datatype error =
    ErrTypeMissing
  | ErrContentTypeNotJSON
  | ErrInvalidBaseURL
  | ErrorString string
  | JSONError json_error
  | APIErrorValue goval
  | LibraryError string

text \<open>
  The fields of the client that \<^verbatim>\<open>Search\<close> and \<^verbatim>\<open>newSearchRequest\<close> read. The HTTP
  client is the function from the request to the outcome of \<^verbatim>\<open>Do\<close>.
\<close>

record 'c Client =
  baseURL :: "URL option"
  appName :: string
  httpClient :: "'c Request \<Rightarrow> error + HTTPResponse"

text \<open>
  The library functions the source calls and that are taken as they come: joining and
  parsing paths and URLs, encoding the query, building the request, parsing a time, the
  text of a decoder error, and \<^verbatim>\<open>isJSONResponse\<close>, which the source calls and does not
  contain.
\<close>

record 'c lib =
  path_Join :: "string \<Rightarrow> string \<Rightarrow> string"
  url_Parse :: "string \<Rightarrow> error + URL"
  ResolveReference :: "URL \<Rightarrow> URL \<Rightarrow> URL"
  Values_Encode :: "Values \<Rightarrow> string"
  url_String :: "URL \<Rightarrow> string"
  http_NewRequest :: "string \<Rightarrow> string \<Rightarrow> error + 'c Request"
  time_Parse :: "string \<Rightarrow> bool"
  json_Error :: "json_error \<Rightarrow> string"
  isJSONResponse :: "HTTPResponse \<Rightarrow> bool"

subsection \<open>Formatting a status line\<close>

definition digit_char :: "nat \<Rightarrow> char" where
  "digit_char d = char_of (48 + d)"

fun decimal :: "nat \<Rightarrow> string" where
  "decimal n = (if n < 10 then [digit_char n] else decimal (n div 10) @ [digit_char (n mod 10)])"

declare decimal.simps [simp del]

text \<open>The verb \<^verbatim>\<open>%d\<close> of \<^verbatim>\<open>fmt\<close> on an \<^verbatim>\<open>int\<close>.\<close>

definition itoa :: "int \<Rightarrow> string" where
  "itoa i = (if i < 0 then CHR ''-'' # decimal (nat (- i)) else decimal (nat i))"

text \<open>\<^verbatim>\<open>http.StatusText\<close>: the reason phrase of a known status code, the empty string otherwise.\<close>

definition http_StatusText :: "int \<Rightarrow> string" where
  "http_StatusText code =
     (case map_of [
        (100, ''Continue''),
        (101, ''Switching Protocols''),
        (102, ''Processing''),
        (103, ''Early Hints''),
        (200, ''OK''),
        (201, ''Created''),
        (202, ''Accepted''),
        (203, ''Non-Authoritative Information''),
        (204, ''No Content''),
        (205, ''Reset Content''),
        (206, ''Partial Content''),
        (207, ''Multi-Status''),
        (208, ''Already Reported''),
        (226, ''IM Used''),
        (300, ''Multiple Choices''),
        (301, ''Moved Permanently''),
        (302, ''Found''),
        (303, ''See Other''),
        (304, ''Not Modified''),
        (305, ''Use Proxy''),
        (307, ''Temporary Redirect''),
        (308, ''Permanent Redirect''),
        (400, ''Bad Request''),
        (401, ''Unauthorized''),
        (402, ''Payment Required''),
        (403, ''Forbidden''),
        (404, ''Not Found''),
        (405, ''Method Not Allowed''),
        (406, ''Not Acceptable''),
        (407, ''Proxy Authentication Required''),
        (408, ''Request Timeout''),
        (409, ''Conflict''),
        (410, ''Gone''),
        (411, ''Length Required''),
        (412, ''Precondition Failed''),
        (413, ''Request Entity Too Large''),
        (414, ''Request URI Too Long''),
        (415, ''Unsupported Media Type''),
        (416, ''Requested Range Not Satisfiable''),
        (417, ''Expectation Failed''),
        (418, ''I'' @ [CHR 0x27] @ ''m a teapot''),
        (421, ''Misdirected Request''),
        (422, ''Unprocessable Entity''),
        (423, ''Locked''),
        (424, ''Failed Dependency''),
        (425, ''Too Early''),
        (426, ''Upgrade Required''),
        (428, ''Precondition Required''),
        (429, ''Too Many Requests''),
        (431, ''Request Header Fields Too Large''),
        (451, ''Unavailable For Legal Reasons''),
        (500, ''Internal Server Error''),
        (501, ''Not Implemented''),
        (502, ''Bad Gateway''),
        (503, ''Service Unavailable''),
        (504, ''Gateway Timeout''),
        (505, ''HTTP Version Not Supported''),
        (506, ''Variant Also Negotiates''),
        (507, ''Insufficient Storage''),
        (508, ''Loop Detected''),
        (510, ''Not Extended''),
        (511, ''Network Authentication Required'')] code of
        Some text \<Rightarrow> text
      | None \<Rightarrow> '''')"

text \<open>\<^verbatim>\<open>fmt.Errorf("%d %s", code, http.StatusText(code))\<close>.\<close>

definition status_error :: "int \<Rightarrow> error" where
  "status_error code = ErrorString (itoa code @ '' '' @ http_StatusText code)"

text \<open>\<^verbatim>\<open>fmt.Errorf("%d %s; JSON response body malformed (%v)", code, http.StatusText(code), err)\<close>.\<close>

definition malformed_error :: "'c lib \<Rightarrow> int \<Rightarrow> json_error \<Rightarrow> error" where
  "malformed_error l code err =
     ErrorString (itoa code @ '' '' @ http_StatusText code
                  @ ''; JSON response body malformed ('' @ json_Error l err @ '')'')"

section \<open>Building the request\<close>

text \<open>
  \<^verbatim>\<open>newSearchRequest\<close>. The query is a map, which the function changes in place, so the
  model returns it beside the result: \<open>Inr (query', r)\<close> is a return with the query left
  as \<open>query'\<close> and \<open>r\<close> the request or the error; \<open>Inl\<close> is a panic. The options change the
  request through its pointer, one after the other.
\<close>

definition set_client :: "'c Client \<Rightarrow> Values \<Rightarrow> panic + Values" where
  "set_client c query =
     (if query \<noteq> None \<and> appName c \<noteq> ''''
      then Values_Set query ''client'' (appName c)
      else Inr query)"

definition newSearchRequest :: "'c lib \<Rightarrow> 'c Client \<Rightarrow> 'c \<Rightarrow> Values \<Rightarrow> ('c Request \<Rightarrow> 'c Request) list
      \<Rightarrow> panic + (Values \<times> (error + 'c Request))" where
  "newSearchRequest l c ctx query options =
     (case baseURL c of
        None \<Rightarrow> Inr (query, Inl ErrInvalidBaseURL)
      | Some base \<Rightarrow>
          (case url_Parse l (path_Join l (Path base) ''/search'') of
             Inl err \<Rightarrow> Inr (query, Inl err)
           | Inr rel \<Rightarrow>
               (let u = ResolveReference l base rel in
                case ensureCorrectFieldsParam query of
                  Inl p \<Rightarrow> Inl p
                | Inr query1 \<Rightarrow>
                    (case set_client c query1 of
                       Inl p \<Rightarrow> Inl p
                     | Inr query2 \<Rightarrow>
                         (let u' = u\<lparr>RawQuery := Values_Encode l query2\<rparr> in
                          case http_NewRequest l ''GET'' (url_String l u') of
                            Inl err \<Rightarrow> Inr (query2, Inl err)
                          | Inr req \<Rightarrow>
                              Inr (query2, Inr (fold (\<lambda>opt r. opt r) options (req\<lparr>Context := ctx\<rparr>))))))))"

section \<open>Decoding the hits\<close>

definition envelope_t :: gotype where
  "envelope_t = TStruct [
      (''TotalHits'', ''total_hits'', TInt),
      (''Hits'', ''assets'', TSlice TRawMessage)]"

definition peek_t :: gotype where
  "peek_t = TStruct [(''Type'', ''Type'', TString)]"

text \<open>
  One iteration of the loop of \<^verbatim>\<open>makeResponse\<close>: the element is unmarshalled a first time
  for its \<^verbatim>\<open>Type\<close> alone, then a second time into a \<^verbatim>\<open>Series\<close> or an \<^verbatim>\<open>Asset\<close>. The
  result is the hit that the iteration appends, or the error it returns with.
\<close>

definition decode_hit :: "'c lib \<Rightarrow> json option \<Rightarrow> error + Hit" where
  "decode_hit l h =
     (case Unmarshal_raw (time_Parse l) peek_t h of
        Inl err \<Rightarrow> Inl (JSONError err)
      | Inr t \<Rightarrow>
          (if string_field t ''Type'' = '''' then Inl ErrTypeMissing
           else if string_field t ''Type'' = ''series'' then
             (case Unmarshal_raw (time_Parse l) Series_t h of
                Inl err \<Rightarrow> Inl (JSONError err)
              | Inr series \<Rightarrow> Inr (SeriesHit series))
           else
             (case Unmarshal_raw (time_Parse l) Asset_t h of
                Inl err \<Rightarrow> Inl (JSONError err)
              | Inr asset \<Rightarrow> Inr (AssetHit asset))))"

text \<open>
  The loop over the raw hits, with the response assembled so far: it returns the response
  and the error, if any, of the first iteration that fails.
\<close>

fun hits_loop :: "'c lib \<Rightarrow> json option list \<Rightarrow> Response \<Rightarrow> Response \<times> error option" where
  "hits_loop l [] response = (response, None)"
| "hits_loop l (h # hs) response =
     (case decode_hit l h of
        Inl err \<Rightarrow> (response, Some err)
      | Inr hit \<Rightarrow> hits_loop l hs (response\<lparr>Hits := Hits response @ [hit]\<rparr>))"

definition response_meta :: "'c Request \<Rightarrow> HTTPResponse \<Rightarrow> Meta" where
  "response_meta req resp =
     \<lparr>StatusCode = resp_StatusCode resp,
      Header = Some (resp_Header resp),
      RequestURL = Some (req_URL req)\<rparr>"

definition makeResponse :: "'c lib \<Rightarrow> 'c Request \<Rightarrow> HTTPResponse \<Rightarrow> Response \<times> error option" where
  "makeResponse l req resp =
     (let meta = response_meta req resp in
      case Decoder_Decode (time_Parse l) envelope_t (resp_Body resp) of
        Inl err \<Rightarrow> (Response_Meta meta, Some (JSONError err))
      | Inr v \<Rightarrow>
          hits_loop l (raw_slice_field v ''Hits'')
            \<lparr>TotalHits = int_field v ''TotalHits'', Hits = [], Meta = meta\<rparr>)"

section \<open>Search\<close>

text \<open>
  \<^verbatim>\<open>Search\<close> returns the response and the error (\<open>None\<close> is \<^verbatim>\<open>nil\<close>); the model adds the
  query as the call leaves it, and \<open>Inl\<close> for a panic. The deferred draining and closing of
  the body stream changes nothing that is returned.
\<close>

definition Search :: "'c lib \<Rightarrow> 'c Client \<Rightarrow> 'c \<Rightarrow> Values \<Rightarrow> ('c Request \<Rightarrow> 'c Request) list
      \<Rightarrow> panic + (Values \<times> Response \<times> error option)" where
  "Search l c ctx query options =
     (case newSearchRequest l c ctx query options of
        Inl p \<Rightarrow> Inl p
      | Inr (query', Inl err) \<Rightarrow> Inr (query', Response_zero, Some err)
      | Inr (query', Inr req) \<Rightarrow>
          (case httpClient c req of
             Inl err \<Rightarrow> Inr (query', Response_zero, Some err)
           | Inr resp \<Rightarrow>
               (let meta = response_meta req resp in
                if resp_StatusCode resp \<noteq> 200 then
                  (if \<not> isJSONResponse l resp then
                     Inr (query', Response_Meta meta, Some (status_error (resp_StatusCode resp)))
                   else
                     (case Decoder_Decode (time_Parse l) APIError_t (resp_Body resp) of
                        Inl err \<Rightarrow>
                          Inr (query', Response_Meta meta,
                               Some (malformed_error l (resp_StatusCode resp) err))
                      | Inr ae \<Rightarrow> Inr (query', Response_Meta meta, Some (APIErrorValue ae))))
                else if \<not> isJSONResponse l resp then
                  Inr (query', Response_Meta meta, Some ErrContentTypeNotJSON)
                else
                  (case makeResponse l req resp of
                     (response, Some err) \<Rightarrow> Inr (query', Response_Meta meta, Some err)
                   | (response, None) \<Rightarrow> Inr (query', response, None)))))"

section \<open>The JSON check on the content type\<close>

text \<open>
  Modelled from the spec: \<^verbatim>\<open>isJSONResponse\<close> is not among the sources, only its test is.
  The spec: a media-type string is JSON if, ignoring leading and trailing whitespace and
  any parameters (the text after a \<^verbatim>\<open>;\<close>), it equals \<^verbatim>\<open>application/json\<close>
  case-sensitively; a missing content type is not JSON, and of several values the first
  is read.
\<close>

definition is_space :: "char \<Rightarrow> bool" where
  "is_space c = (c \<in> set [CHR '' '', CHR 0x09, CHR 0x0A, CHR 0x0B, CHR 0x0C, CHR 0x0D])"

definition trim_space :: "string \<Rightarrow> string" where
  "trim_space s = rev (dropWhile is_space (rev (dropWhile is_space s)))"

definition media_type :: "string \<Rightarrow> string" where
  "media_type ct = trim_space (takeWhile (\<lambda>c. c \<noteq> CHR '';'') ct)"

definition isJSONContentType :: "string \<Rightarrow> bool" where
  "isJSONContentType ct = (media_type ct = ''application/json'')"

definition isJSONResponse_spec :: "HTTPResponse \<Rightarrow> bool" where
  "isJSONResponse_spec resp =
     (case resp_Header resp ''Content-Type'' of
        None \<Rightarrow> False
      | Some [] \<Rightarrow> False
      | Some (ct # _) \<Rightarrow> isJSONContentType ct)"

section \<open>An example environment\<close>

text \<open>
  A client of \<^verbatim>\<open>http://example.com/\<close> with the application name \<^verbatim>\<open>app\<close>, whose transport
  answers every request with a given response. The library is tabulated at the arguments
  that this client produces: joining the base path \<^verbatim>\<open>/\<close> with \<^verbatim>\<open>/search\<close>, parsing
  \<^verbatim>\<open>/search\<close>, resolving it against the base, and encoding a query that is nil or whose only
  parameter is \<^verbatim>\<open>client\<close>. The content-type check is the one modelled from the spec, the text of a
  syntax error is its message, and no example has a time field.
\<close>

definition ex_url :: "string \<Rightarrow> string \<Rightarrow> URL" where
  "ex_url p q =
     \<lparr>Scheme = ''http'', Opaque = '''', User = None, Host = ''example.com'', Path = p,
      RawPath = '''', OmitHost = False, ForceQuery = False, RawQuery = q,
      Fragment = '''', RawFragment = ''''\<rparr>"

definition ex_rel :: URL where
  "ex_rel =
     \<lparr>Scheme = '''', Opaque = '''', User = None, Host = '''', Path = ''/search'',
      RawPath = '''', OmitHost = False, ForceQuery = False, RawQuery = '''',
      Fragment = '''', RawFragment = ''''\<rparr>"

definition ex_Encode :: "Values \<Rightarrow> string" where
  "ex_Encode q =
     (case q of
        None \<Rightarrow> ''''
      | Some m \<Rightarrow> (case m ''client'' of Some [v] \<Rightarrow> ''client='' @ v | _ \<Rightarrow> ''''))"

definition ex_json_Error :: "json_error \<Rightarrow> string" where
  "ex_json_Error e =
     (case e of
        SyntaxError msg \<Rightarrow> msg
      | UnmarshalTypeError val t \<Rightarrow> ''json: cannot unmarshal '' @ val
      | TimeUnmarshalError j \<Rightarrow> ''Time.UnmarshalJSON'')"

definition ex_request :: "string \<Rightarrow> unit Request" where
  "ex_request q =
     \<lparr>Method = ''GET'', req_URL = ex_url ''/search'' q, req_Header = Map.empty, Context = ()\<rparr>"

definition ex_lib :: "unit lib" where
  "ex_lib =
     \<lparr>path_Join = (\<lambda>a b. if a = ''/'' \<and> b = ''/search'' then ''/search'' else ''''),
      url_Parse = (\<lambda>s. if s = ''/search'' then Inr ex_rel else Inl (LibraryError ''parse'')),
      ResolveReference = (\<lambda>b r. ex_url (Path r) ''''),
      Values_Encode = ex_Encode,
      url_String = (\<lambda>u. ''http://example.com'' @ Path u
                        @ (if RawQuery u = '''' then '''' else ''?'' @ RawQuery u)),
      http_NewRequest = (\<lambda>m s. if s = ''http://example.com/search?client=app''
                                then Inr (ex_request ''client=app'')
                                else if s = ''http://example.com/search''
                                then Inr (ex_request '''')
                                else Inl (LibraryError ''request'')),
      time_Parse = (\<lambda>s. False),
      json_Error = ex_json_Error,
      isJSONResponse = isJSONResponse_spec\<rparr>"

definition ex_client :: "HTTPResponse \<Rightarrow> unit Client" where
  "ex_client resp =
     \<lparr>baseURL = Some (ex_url ''/'' ''''), appName = ''app'', httpClient = (\<lambda>req. Inr resp)\<rparr>"

definition json_header :: Header where
  "json_header = [''Content-Type'' \<mapsto> [''application/json; charset=utf-8'']]"

definition text_header :: Header where
  "text_header = [''Content-Type'' \<mapsto> [''text/plain'']]"

text \<open>
  The documents of the examples:
  \<^verbatim>\<open>{"total_hits":2,"assets":[{"type":"series","id":"s1"},{"type":"movie","video_id":"a1"}]}\<close>,
  \<^verbatim>\<open>{"total_hits":2,"assets":[{"type":"series","id":"s1"},{"id":"s2"}]}\<close> and
  \<^verbatim>\<open>{"message":"not found"}\<close>.
\<close>

definition ex_series_hit :: json where
  "ex_series_hit = JObj [(''type'', JStr ''series''), (''id'', JStr ''s1'')]"

definition ex_asset_hit :: json where
  "ex_asset_hit = JObj [(''type'', JStr ''movie''), (''video_id'', JStr ''a1'')]"

definition ex_untyped_hit :: json where
  "ex_untyped_hit = JObj [(''id'', JStr ''s2'')]"

definition ex_body :: json where
  "ex_body =
     JObj [(''total_hits'', JNum ''2''), (''assets'', JArr [ex_series_hit, ex_asset_hit])]"

definition ex_body_untyped :: json where
  "ex_body_untyped =
     JObj [(''total_hits'', JNum ''2''), (''assets'', JArr [ex_series_hit, ex_untyped_hit])]"

text \<open>The series and the asset that the two typed hits decode to.\<close>

definition ex_series :: goval where
  "ex_series =
     (case json_Unmarshal (\<lambda>s. False) Series_t ex_series_hit of
        Inr series \<Rightarrow> series
      | Inl err \<Rightarrow> zero Series_t)"

definition ex_asset :: goval where
  "ex_asset =
     (case json_Unmarshal (\<lambda>s. False) Asset_t ex_asset_hit of
        Inr asset \<Rightarrow> asset
      | Inl err \<Rightarrow> zero Asset_t)"

definition ex_error_body :: json where
  "ex_error_body = JObj [(''message'', JStr ''not found'')]"

definition ex_response :: HTTPResponse where
  "ex_response = \<lparr>resp_StatusCode = 200, resp_Header = json_header, resp_Body = Inr ex_body\<rparr>"

definition ex_response_untyped :: HTTPResponse where
  "ex_response_untyped =
     \<lparr>resp_StatusCode = 200, resp_Header = json_header, resp_Body = Inr ex_body_untyped\<rparr>"

section \<open>The type field of a raw hit\<close>

text \<open>
  The members of an object that the decoder stores into \<^verbatim>\<open>Type\<close> on the first pass:
  those whose key is \<^verbatim>\<open>type\<close> in any letter case, in document order. When each of them
  is a string or \<^verbatim>\<open>null\<close>, the value read is the last string among them, and the empty
  string when there is none.
\<close>

definition type_members :: "(string \<times> json) list \<Rightarrow> json list" where
  "type_members kvs = map snd (filter (\<lambda>kv. foldName (fst kv) = ''TYPE'') kvs)"

definition string_or_null :: "json \<Rightarrow> bool" where
  "string_or_null x = (case x of JStr y \<Rightarrow> True | JNull \<Rightarrow> True | _ \<Rightarrow> False)"

fun last_string :: "string \<Rightarrow> json list \<Rightarrow> string" where
  "last_string c [] = c"
| "last_string c (JStr y # xs) = last_string y xs"
| "last_string c (x # xs) = last_string c xs"

section \<open>The field-selection normalizer\<close>

lemma strings_Split_nonempty: "strings_Split s sep \<noteq> []"
  by (induction s) (auto split: list.splits)

lemma strings_Split_append_sep:
  "strings_Split (s @ sep # t) sep = strings_Split s sep @ strings_Split t sep"
proof (induction s)
  case Nil
  show ?case by simp
next
  case (Cons c cs)
  obtain x xs where sp: "strings_Split cs sep = x # xs"
    using strings_Split_nonempty [of cs sep] by (cases "strings_Split cs sep") auto
  from Cons sp show ?case by simp
qed

lemma strings_Split_no_sep: "sep \<notin> set s \<Longrightarrow> strings_Split s sep = [s]"
  by (induction s) auto

lemma match_loop_iff: "match_loop fs \<longleftrightarrow> ''type'' \<in> set fs"
  by (induction fs) auto

lemma Values_Get_nonempty:
  "Values_Get query key \<noteq> '''' \<Longrightarrow> \<exists>m. query = Some m"
  by (auto simp: Values_Get_def split: option.splits)

lemma ensureCorrectFieldsParam_cases:
  assumes "Values_Get query ''fields'' = f"
  shows "ensureCorrectFieldsParam query =
           (if f \<noteq> [] \<and> ''type'' \<notin> set (strings_Split f CHR '','')
            then Values_Set query ''fields'' (f @ '',type'') else Inr query)"
  using assms by (simp add: ensureCorrectFieldsParam_def match_loop_iff)

text \<open>
  C7. Let \<open>f\<close> be the value of the parameter \<^verbatim>\<open>fields\<close> as \<^verbatim>\<open>Get\<close> reads it. If \<open>f\<close> is
  not empty and none of its comma-separated entries is \<^verbatim>\<open>type\<close>, the normalizer sets the
  parameter to \<open>f\<close> followed by \<^verbatim>\<open>,type\<close>, whose entries are those of \<open>f\<close> and then
  \<^verbatim>\<open>type\<close>, once. If \<open>f\<close> is not empty and \<^verbatim>\<open>type\<close> is among its entries, the query is left
  equal to the input. If the parameter is absent (or empty), nothing changes. The
  normalizer never panics.
\<close>

theorem ensureCorrectFieldsParam_normalizes:
  "(Values_Get query ''fields'' = f \<and> f \<noteq> '''' \<and> ''type'' \<notin> set (strings_Split f CHR '','') \<longrightarrow>
      (\<exists>m. query = Some m
          \<and> ensureCorrectFieldsParam query = Inr (Some (m(''fields'' \<mapsto> [f @ '',type''])))
          \<and> strings_Split (f @ '',type'') CHR '','' = strings_Split f CHR '','' @ [''type'']))
   \<and> (Values_Get query ''fields'' = f \<and> f \<noteq> '''' \<and> ''type'' \<in> set (strings_Split f CHR '','') \<longrightarrow>
        ensureCorrectFieldsParam query = Inr query)
   \<and> (Values_Get query ''fields'' = '''' \<longrightarrow> ensureCorrectFieldsParam query = Inr query)"
proof (intro conjI impI)
  assume a: "Values_Get query ''fields'' = f \<and> f \<noteq> '''' \<and> ''type'' \<notin> set (strings_Split f CHR '','')"
  then obtain m where m: "query = Some m"
    using Values_Get_nonempty [of query "''fields''"] by auto
  have sp: "strings_Split (f @ '',type'') CHR '','' = strings_Split f CHR '','' @ [''type'']"
    using strings_Split_append_sep [of f "CHR '',''" "''type''"]
    by (simp add: strings_Split_no_sep)
  have "ensureCorrectFieldsParam query = Inr (Some (m(''fields'' \<mapsto> [f @ '',type''])))"
    using a m ensureCorrectFieldsParam_cases [of query f] by (simp add: Values_Set_def)
  with m sp show "\<exists>m. query = Some m
      \<and> ensureCorrectFieldsParam query = Inr (Some (m(''fields'' \<mapsto> [f @ '',type''])))
      \<and> strings_Split (f @ '',type'') CHR '','' = strings_Split f CHR '','' @ [''type'']"
    by blast
next
  assume "Values_Get query ''fields'' = f \<and> f \<noteq> '''' \<and> ''type'' \<in> set (strings_Split f CHR '','')"
  then show "ensureCorrectFieldsParam query = Inr query"
    using ensureCorrectFieldsParam_cases [of query f] by simp
next
  assume "Values_Get query ''fields'' = ''''"
  then show "ensureCorrectFieldsParam query = Inr query"
    using ensureCorrectFieldsParam_cases [of query "''''"] by simp
qed

theorem ensureCorrectFieldsParam_normalizes_witness:
  "(Values_Get (Some [''fields'' \<mapsto> [''id,title'']]) ''fields'' = ''id,title''
      \<and> ''id,title'' \<noteq> '''' \<and> ''type'' \<notin> set (strings_Split ''id,title'' CHR '',''))
   \<and> ensureCorrectFieldsParam (Some [''fields'' \<mapsto> [''id,title'']])
        = Inr (Some [''fields'' \<mapsto> [''id,title,type'']])
   \<and> (Values_Get (Some [''fields'' \<mapsto> [''id,type,title'']]) ''fields'' = ''id,type,title''
      \<and> ''id,type,title'' \<noteq> '''' \<and> ''type'' \<in> set (strings_Split ''id,type,title'' CHR '',''))
   \<and> ensureCorrectFieldsParam (Some [''fields'' \<mapsto> [''id,type,title'']])
        = Inr (Some [''fields'' \<mapsto> [''id,type,title'']])
   \<and> Values_Get (Some [''q'' \<mapsto> [''idol'']]) ''fields'' = ''''
   \<and> ensureCorrectFieldsParam (Some [''q'' \<mapsto> [''idol'']]) = Inr (Some [''q'' \<mapsto> [''idol'']])"
proof -
  have h1: "Values_Get (Some [''fields'' \<mapsto> [''id,title'']]) ''fields'' = ''id,title''
      \<and> ''id,title'' \<noteq> '''' \<and> ''type'' \<notin> set (strings_Split ''id,title'' CHR '','')"
    by (simp add: Values_Get_def)
  have h2: "Values_Get (Some [''fields'' \<mapsto> [''id,type,title'']]) ''fields'' = ''id,type,title''
      \<and> ''id,type,title'' \<noteq> '''' \<and> ''type'' \<in> set (strings_Split ''id,type,title'' CHR '','')"
    by (simp add: Values_Get_def)
  have h3: "Values_Get (Some [''q'' \<mapsto> [''idol'']]) ''fields'' = ''''"
    by (simp add: Values_Get_def)
  note t1 = ensureCorrectFieldsParam_normalizes
      [of "Some [''fields'' \<mapsto> [''id,title'']]" "''id,title''"]
  note t2 = ensureCorrectFieldsParam_normalizes
      [of "Some [''fields'' \<mapsto> [''id,type,title'']]" "''id,type,title''"]
  note t3 = ensureCorrectFieldsParam_normalizes
      [of "Some [''q'' \<mapsto> [''idol'']]" "''''"]
  from t1 h1 have r1: "ensureCorrectFieldsParam (Some [''fields'' \<mapsto> [''id,title'']])
        = Inr (Some [''fields'' \<mapsto> [''id,title,type'']])"
    by auto
  from t2 h2 have r2: "ensureCorrectFieldsParam (Some [''fields'' \<mapsto> [''id,type,title'']])
        = Inr (Some [''fields'' \<mapsto> [''id,type,title'']])"
    by blast
  from t3 h3 have r3: "ensureCorrectFieldsParam (Some [''q'' \<mapsto> [''idol'']]) = Inr (Some [''q'' \<mapsto> [''idol'']])"
    by blast
  from h1 h2 h3 r1 r2 r3 show ?thesis by blast
qed

section \<open>Classifying the response\<close>

lemma Search_response:
  assumes "newSearchRequest l c ctx query options = Inr (query', Inr req)"
    and "httpClient c req = Inr resp"
  shows "Search l c ctx query options =
           (if resp_StatusCode resp \<noteq> 200 then
              (if \<not> isJSONResponse l resp then
                 Inr (query', Response_Meta (response_meta req resp),
                      Some (status_error (resp_StatusCode resp)))
               else
                 (case Decoder_Decode (time_Parse l) APIError_t (resp_Body resp) of
                    Inl err \<Rightarrow>
                      Inr (query', Response_Meta (response_meta req resp),
                           Some (malformed_error l (resp_StatusCode resp) err))
                  | Inr ae \<Rightarrow>
                      Inr (query', Response_Meta (response_meta req resp), Some (APIErrorValue ae))))
            else if \<not> isJSONResponse l resp then
              Inr (query', Response_Meta (response_meta req resp), Some ErrContentTypeNotJSON)
            else
              (case makeResponse l req resp of
                 (response, Some err) \<Rightarrow> Inr (query', Response_Meta (response_meta req resp), Some err)
               | (response, None) \<Rightarrow> Inr (query', response, None)))"
  using assms by (simp add: Search_def Let_def)

lemma ex_ensureCorrectFieldsParam_empty:
  "ensureCorrectFieldsParam (Some Map.empty) = Inr (Some Map.empty)"
  by (simp add: ensureCorrectFieldsParam_def Values_Get_def)

lemma ex_newSearchRequest:
  "newSearchRequest ex_lib (ex_client resp) () (Some Map.empty) []
     = Inr (Some [''client'' \<mapsto> [''app'']], Inr (ex_request ''client=app''))"
  by (simp add: newSearchRequest_def ex_lib_def ex_client_def ex_url_def ex_rel_def
      ex_ensureCorrectFieldsParam_empty set_client_def Values_Set_def ex_Encode_def ex_request_def)

lemma isJSONResponse_spec_text: "\<not> isJSONResponse_spec \<lparr>resp_StatusCode = s, resp_Header = text_header, resp_Body = b\<rparr>"
  by (simp add: isJSONResponse_spec_def text_header_def isJSONContentType_def media_type_def
      trim_space_def is_space_def)

lemma isJSONResponse_spec_json: "isJSONResponse_spec \<lparr>resp_StatusCode = s, resp_Header = json_header, resp_Body = b\<rparr>"
  by (simp add: isJSONResponse_spec_def json_header_def isJSONContentType_def media_type_def
      trim_space_def is_space_def)

lemma itoa_500: "itoa 500 = ''500''"
  by code_simp

lemma StatusText_500: "http_StatusText 500 = ''Internal Server Error''"
  by (simp add: http_StatusText_def)

lemma Decode_ex_error_body:
  "Decoder_Decode tp APIError_t (Inr ex_error_body)
     = Inr (VStruct [(''Message'', VString ''not found''), (''Code'', VRawMessage None)])"
  by (simp add: Decoder_Decode_def json_Unmarshal_def APIError_t_def ex_error_body_def find_field_def)

text \<open>
  C4. When the request was built and sent, and the response has status 200 and a content
  type that \<^verbatim>\<open>isJSONResponse\<close> rejects, \<^verbatim>\<open>Search\<close> returns \<^verbatim>\<open>ErrContentTypeNotJSON\<close>
  with a response that holds the meta data (status, header, request URL) and nothing else.
  The body does not occur in the result.
\<close>

theorem Search_content_type_not_JSON:
  assumes "newSearchRequest l c ctx query options = Inr (query', Inr req)"
    and "httpClient c req = Inr resp"
    and "resp_StatusCode resp = 200"
    and "\<not> isJSONResponse l resp"
  shows "Search l c ctx query options =
           Inr (query',
                \<lparr>TotalHits = 0, Hits = [],
                 Meta = \<lparr>StatusCode = 200, Header = Some (resp_Header resp),
                         RequestURL = Some (req_URL req)\<rparr>\<rparr>,
                Some ErrContentTypeNotJSON)"
  using Search_response [OF assms(1) assms(2)] assms(3) assms(4)
  by (simp add: Response_Meta_def response_meta_def)

theorem Search_content_type_not_JSON_witness:
  "newSearchRequest ex_lib
       (ex_client \<lparr>resp_StatusCode = 200, resp_Header = text_header, resp_Body = Inr ex_body\<rparr>)
       () (Some Map.empty) []
     = Inr (Some [''client'' \<mapsto> [''app'']], Inr (ex_request ''client=app''))
   \<and> httpClient (ex_client \<lparr>resp_StatusCode = 200, resp_Header = text_header, resp_Body = Inr ex_body\<rparr>)
        (ex_request ''client=app'')
     = Inr \<lparr>resp_StatusCode = 200, resp_Header = text_header, resp_Body = Inr ex_body\<rparr>
   \<and> \<not> isJSONResponse ex_lib \<lparr>resp_StatusCode = 200, resp_Header = text_header, resp_Body = Inr ex_body\<rparr>
   \<and> Search ex_lib
        (ex_client \<lparr>resp_StatusCode = 200, resp_Header = text_header, resp_Body = Inr ex_body\<rparr>)
        () (Some Map.empty) []
     = Inr (Some [''client'' \<mapsto> [''app'']],
            \<lparr>TotalHits = 0, Hits = [],
             Meta = \<lparr>StatusCode = 200, Header = Some text_header,
                     RequestURL = Some (ex_url ''/search'' ''client=app'')\<rparr>\<rparr>,
            Some ErrContentTypeNotJSON)"
proof -
  let ?resp = "\<lparr>resp_StatusCode = 200, resp_Header = text_header, resp_Body = Inr ex_body\<rparr>"
  have h1: "newSearchRequest ex_lib (ex_client ?resp) () (Some Map.empty) []
      = Inr (Some [''client'' \<mapsto> [''app'']], Inr (ex_request ''client=app''))"
    by (rule ex_newSearchRequest)
  have h2: "httpClient (ex_client ?resp) (ex_request ''client=app'') = Inr ?resp"
    by (simp add: ex_client_def)
  have h3: "resp_StatusCode ?resp = 200" by simp
  have h4: "\<not> isJSONResponse ex_lib ?resp"
    by (simp add: ex_lib_def isJSONResponse_spec_text)
  from Search_content_type_not_JSON [OF h1 h2 h3 h4] h1 h2 h4 show ?thesis
    by (simp add: ex_request_def)
qed

text \<open>
  C5. When the request was built and sent, and the response has a status other than 200
  and a content type that \<^verbatim>\<open>isJSONResponse\<close> accepts, the body is decoded into an
  \<^verbatim>\<open>APIError\<close>. If that succeeds, the decoded value is the error returned. If it fails, the
  error returned is the text made of the status, its reason phrase, the words
  \<^verbatim>\<open>JSON response body malformed\<close> and the text of the decoder's error; a body that is not
  JSON always fails. Both results carry the meta data of the response. With status 404
  and the body \<^verbatim>\<open>{"message":"not found"}\<close>, the error is an \<^verbatim>\<open>APIError\<close> whose message is
  \<^verbatim>\<open>not found\<close> and the status code of the meta data is 404.
\<close>

theorem Search_structured_error:
  assumes "newSearchRequest l c ctx query options = Inr (query', Inr req)"
    and "httpClient c req = Inr resp"
    and "resp_StatusCode resp \<noteq> 200"
    and "isJSONResponse l resp"
  shows "(\<exists>err. Search l c ctx query options
            = Inr (query',
                   \<lparr>TotalHits = 0, Hits = [],
                    Meta = \<lparr>StatusCode = resp_StatusCode resp, Header = Some (resp_Header resp),
                            RequestURL = Some (req_URL req)\<rparr>\<rparr>,
                   Some err)
           \<and> err = (case Decoder_Decode (time_Parse l) APIError_t (resp_Body resp) of
                      Inr ae \<Rightarrow> APIErrorValue ae
                    | Inl e \<Rightarrow>
                        ErrorString (itoa (resp_StatusCode resp) @ '' ''
                          @ http_StatusText (resp_StatusCode resp)
                          @ ''; JSON response body malformed ('' @ json_Error l e @ '')'')))
       \<and> (\<forall>e. resp_Body resp = Inl e \<longrightarrow>
             Decoder_Decode (time_Parse l) APIError_t (resp_Body resp) = Inl e)
       \<and> (resp_StatusCode resp = 404 \<and> resp_Body resp = Inr ex_error_body \<longrightarrow>
            (\<exists>r ae. Search l c ctx query options = Inr (query', r, Some (APIErrorValue ae))
               \<and> string_field ae ''Message'' = ''not found''
               \<and> StatusCode (Meta r) = 404))"
proof (intro conjI allI impI)
  show "\<exists>err. Search l c ctx query options
            = Inr (query',
                   \<lparr>TotalHits = 0, Hits = [],
                    Meta = \<lparr>StatusCode = resp_StatusCode resp, Header = Some (resp_Header resp),
                            RequestURL = Some (req_URL req)\<rparr>\<rparr>,
                   Some err)
           \<and> err = (case Decoder_Decode (time_Parse l) APIError_t (resp_Body resp) of
                      Inr ae \<Rightarrow> APIErrorValue ae
                    | Inl e \<Rightarrow>
                        ErrorString (itoa (resp_StatusCode resp) @ '' ''
                          @ http_StatusText (resp_StatusCode resp)
                          @ ''; JSON response body malformed ('' @ json_Error l e @ '')''))"
    using Search_response [OF assms(1) assms(2)] assms(3) assms(4)
    by (simp add: Response_Meta_def response_meta_def malformed_error_def split: sum.splits)
next
  fix e
  assume "resp_Body resp = Inl e"
  then show "Decoder_Decode (time_Parse l) APIError_t (resp_Body resp) = Inl e"
    by (simp add: Decoder_Decode_def)
next
  assume a: "resp_StatusCode resp = 404 \<and> resp_Body resp = Inr ex_error_body"
  have "Search l c ctx query options
          = Inr (query', Response_Meta (response_meta req resp),
                 Some (APIErrorValue (VStruct [(''Message'', VString ''not found''),
                                               (''Code'', VRawMessage None)])))"
    using Search_response [OF assms(1) assms(2)] assms(3) assms(4) a
    by (simp add: Decode_ex_error_body)
  moreover have "string_field (VStruct [(''Message'', VString ''not found''),
                                        (''Code'', VRawMessage None)]) ''Message'' = ''not found''"
    by (simp add: string_field_def field_def)
  moreover have "StatusCode (Meta (Response_Meta (response_meta req resp))) = 404"
    using a by (simp add: Response_Meta_def response_meta_def)
  ultimately show "\<exists>r ae. Search l c ctx query options = Inr (query', r, Some (APIErrorValue ae))
               \<and> string_field ae ''Message'' = ''not found''
               \<and> StatusCode (Meta r) = 404"
    by blast
qed

theorem Search_structured_error_witness:
  "newSearchRequest ex_lib
       (ex_client \<lparr>resp_StatusCode = 404, resp_Header = json_header, resp_Body = Inr ex_error_body\<rparr>)
       () (Some Map.empty) []
     = Inr (Some [''client'' \<mapsto> [''app'']], Inr (ex_request ''client=app''))
   \<and> httpClient (ex_client \<lparr>resp_StatusCode = 404, resp_Header = json_header, resp_Body = Inr ex_error_body\<rparr>)
        (ex_request ''client=app'')
     = Inr \<lparr>resp_StatusCode = 404, resp_Header = json_header, resp_Body = Inr ex_error_body\<rparr>
   \<and> isJSONResponse ex_lib \<lparr>resp_StatusCode = 404, resp_Header = json_header, resp_Body = Inr ex_error_body\<rparr>
   \<and> (\<exists>r ae. Search ex_lib
        (ex_client \<lparr>resp_StatusCode = 404, resp_Header = json_header, resp_Body = Inr ex_error_body\<rparr>)
        () (Some Map.empty) []
         = Inr (Some [''client'' \<mapsto> [''app'']], r, Some (APIErrorValue ae))
       \<and> string_field ae ''Message'' = ''not found''
       \<and> StatusCode (Meta r) = 404)"
proof -
  let ?resp = "\<lparr>resp_StatusCode = 404, resp_Header = json_header, resp_Body = Inr ex_error_body\<rparr>"
  have h1: "newSearchRequest ex_lib (ex_client ?resp) () (Some Map.empty) []
      = Inr (Some [''client'' \<mapsto> [''app'']], Inr (ex_request ''client=app''))"
    by (rule ex_newSearchRequest)
  have h2: "httpClient (ex_client ?resp) (ex_request ''client=app'') = Inr ?resp"
    by (simp add: ex_client_def)
  have h3: "resp_StatusCode ?resp \<noteq> 200" by simp
  have h4: "isJSONResponse ex_lib ?resp"
    by (simp add: ex_lib_def isJSONResponse_spec_json)
  have h5: "resp_StatusCode ?resp = 404 \<and> resp_Body ?resp = Inr ex_error_body" by simp
  from Search_structured_error [OF h1 h2 h3 h4] h5
  have "\<exists>r ae. Search ex_lib (ex_client ?resp) () (Some Map.empty) []
         = Inr (Some [''client'' \<mapsto> [''app'']], r, Some (APIErrorValue ae))
       \<and> string_field ae ''Message'' = ''not found''
       \<and> StatusCode (Meta r) = 404"
    by blast
  with h1 h2 h4 show ?thesis by blast
qed

text \<open>
  C6. When the request was built and sent, and the response has a status other than 200
  and a content type that \<^verbatim>\<open>isJSONResponse\<close> rejects, \<^verbatim>\<open>Search\<close> returns the error whose
  text is the status in decimal, a space and the reason phrase of the status, together
  with the meta data. The body does not occur in the result. For status 500 the text is
  \<^verbatim>\<open>500 Internal Server Error\<close>.
\<close>

theorem Search_opaque_error:
  assumes "newSearchRequest l c ctx query options = Inr (query', Inr req)"
    and "httpClient c req = Inr resp"
    and "resp_StatusCode resp \<noteq> 200"
    and "\<not> isJSONResponse l resp"
  shows "Search l c ctx query options =
           Inr (query',
                \<lparr>TotalHits = 0, Hits = [],
                 Meta = \<lparr>StatusCode = resp_StatusCode resp, Header = Some (resp_Header resp),
                         RequestURL = Some (req_URL req)\<rparr>\<rparr>,
                Some (ErrorString (itoa (resp_StatusCode resp) @ '' ''
                                   @ http_StatusText (resp_StatusCode resp))))
       \<and> itoa 500 @ '' '' @ http_StatusText 500 = ''500 Internal Server Error''"
  using Search_response [OF assms(1) assms(2)] assms(3) assms(4)
  by (simp add: Response_Meta_def response_meta_def status_error_def itoa_500 StatusText_500)

theorem Search_opaque_error_witness:
  "newSearchRequest ex_lib
       (ex_client \<lparr>resp_StatusCode = 500, resp_Header = text_header, resp_Body = Inl (SyntaxError ''invalid character'')\<rparr>)
       () (Some Map.empty) []
     = Inr (Some [''client'' \<mapsto> [''app'']], Inr (ex_request ''client=app''))
   \<and> httpClient (ex_client \<lparr>resp_StatusCode = 500, resp_Header = text_header, resp_Body = Inl (SyntaxError ''invalid character'')\<rparr>)
        (ex_request ''client=app'')
     = Inr \<lparr>resp_StatusCode = 500, resp_Header = text_header, resp_Body = Inl (SyntaxError ''invalid character'')\<rparr>
   \<and> \<not> isJSONResponse ex_lib \<lparr>resp_StatusCode = 500, resp_Header = text_header, resp_Body = Inl (SyntaxError ''invalid character'')\<rparr>
   \<and> Search ex_lib
        (ex_client \<lparr>resp_StatusCode = 500, resp_Header = text_header, resp_Body = Inl (SyntaxError ''invalid character'')\<rparr>)
        () (Some Map.empty) []
     = Inr (Some [''client'' \<mapsto> [''app'']],
            \<lparr>TotalHits = 0, Hits = [],
             Meta = \<lparr>StatusCode = 500, Header = Some text_header,
                     RequestURL = Some (ex_url ''/search'' ''client=app'')\<rparr>\<rparr>,
            Some (ErrorString ''500 Internal Server Error''))"
proof -
  let ?resp = "\<lparr>resp_StatusCode = 500, resp_Header = text_header, resp_Body = Inl (SyntaxError ''invalid character'')\<rparr>"
  have h1: "newSearchRequest ex_lib (ex_client ?resp) () (Some Map.empty) []
      = Inr (Some [''client'' \<mapsto> [''app'']], Inr (ex_request ''client=app''))"
    by (rule ex_newSearchRequest)
  have h2: "httpClient (ex_client ?resp) (ex_request ''client=app'') = Inr ?resp"
    by (simp add: ex_client_def)
  have h3: "resp_StatusCode ?resp \<noteq> 200" by simp
  have h4: "\<not> isJSONResponse ex_lib ?resp"
    by (simp add: ex_lib_def isJSONResponse_spec_text)
  from Search_opaque_error [OF h1 h2 h3 h4] h1 h2 h4 show ?thesis
    by (simp add: ex_request_def)
qed

section \<open>The query of the request\<close>

lemma ensureCorrectFieldsParam_frame:
  assumes "query = Some m"
  shows "\<exists>m'. ensureCorrectFieldsParam query = Inr (Some m')
            \<and> (\<forall>k. k \<noteq> ''fields'' \<longrightarrow> m' k = m k)"
  using assms ensureCorrectFieldsParam_cases [of query "Values_Get query ''fields''"]
  by (auto simp: Values_Set_def)

text \<open>
  C10. For a query that is not nil and a client with a non-empty application name,
  whenever \<^verbatim>\<open>newSearchRequest\<close> gets to build the request (the client has a base URL and
  the joined path parses), the query is left with the parameter \<^verbatim>\<open>client\<close> set to the
  application name alone, whatever the caller had put there, and every parameter other
  than \<^verbatim>\<open>fields\<close> and \<^verbatim>\<open>client\<close> is as it was. The request is built from the URL whose
  raw query is the encoding of that query.
\<close>

theorem newSearchRequest_sets_client:
  assumes "query = Some m"
    and "appName c \<noteq> ''''"
    and "baseURL c = Some base"
    and "url_Parse l (path_Join l (Path base) ''/search'') = Inr rel"
  shows "\<exists>m' r. newSearchRequest l c ctx query options = Inr (Some m', r)
           \<and> m' ''client'' = Some [appName c]
           \<and> Values_Get (Some m') ''client'' = appName c
           \<and> (\<forall>k. k \<noteq> ''fields'' \<and> k \<noteq> ''client'' \<longrightarrow> m' k = m k)
           \<and> r = (case http_NewRequest l ''GET''
                         (url_String l ((ResolveReference l base rel)
                            \<lparr>RawQuery := Values_Encode l (Some m')\<rparr>)) of
                     Inl err \<Rightarrow> Inl err
                   | Inr req \<Rightarrow> Inr (fold (\<lambda>opt r. opt r) options (req\<lparr>Context := ctx\<rparr>)))"
proof -
  obtain m1 where m1: "ensureCorrectFieldsParam query = Inr (Some m1)"
    and frame: "\<forall>k. k \<noteq> ''fields'' \<longrightarrow> m1 k = m k"
    using ensureCorrectFieldsParam_frame [OF assms(1)] by blast
  have sc: "set_client c (Some m1) = Inr (Some (m1(''client'' \<mapsto> [appName c])))"
    using assms(2) by (simp add: set_client_def Values_Set_def)
  let ?m' = "m1(''client'' \<mapsto> [appName c])"
  have "newSearchRequest l c ctx query options
          = Inr (Some ?m',
                 case http_NewRequest l ''GET''
                        (url_String l ((ResolveReference l base rel)
                           \<lparr>RawQuery := Values_Encode l (Some ?m')\<rparr>)) of
                   Inl err \<Rightarrow> Inl err
                 | Inr req \<Rightarrow> Inr (fold (\<lambda>opt r. opt r) options (req\<lparr>Context := ctx\<rparr>)))"
    using assms(3) assms(4) m1 sc
    by (simp add: newSearchRequest_def Let_def split: sum.splits)
  moreover have "?m' ''client'' = Some [appName c]" by simp
  moreover have "Values_Get (Some ?m') ''client'' = appName c"
    by (simp add: Values_Get_def)
  moreover have "\<forall>k. k \<noteq> ''fields'' \<and> k \<noteq> ''client'' \<longrightarrow> ?m' k = m k"
    using frame by simp
  ultimately show ?thesis by blast
qed

theorem newSearchRequest_sets_client_witness:
  "appName (ex_client \<lparr>resp_StatusCode = 200, resp_Header = json_header, resp_Body = Inr ex_body\<rparr>) \<noteq> ''''
   \<and> baseURL (ex_client \<lparr>resp_StatusCode = 200, resp_Header = json_header, resp_Body = Inr ex_body\<rparr>) = Some (ex_url ''/'' '''')
   \<and> url_Parse ex_lib (path_Join ex_lib (Path (ex_url ''/'' '''')) ''/search'') = Inr ex_rel
   \<and> (\<exists>m' r. newSearchRequest ex_lib (ex_client \<lparr>resp_StatusCode = 200, resp_Header = json_header, resp_Body = Inr ex_body\<rparr>) ()
                (Some [''client'' \<mapsto> [''other''], ''q'' \<mapsto> [''idol'']]) []
              = Inr (Some m', r)
         \<and> m' ''client'' = Some [''app'']
         \<and> m' ''q'' = Some [''idol''])"
proof -
  let ?m = "[''client'' \<mapsto> [''other''], ''q'' \<mapsto> [''idol'']]"
  have h2: "appName (ex_client \<lparr>resp_StatusCode = 200, resp_Header = json_header, resp_Body = Inr ex_body\<rparr>) \<noteq> ''''" by (simp add: ex_client_def)
  have h3: "baseURL (ex_client \<lparr>resp_StatusCode = 200, resp_Header = json_header, resp_Body = Inr ex_body\<rparr>) = Some (ex_url ''/'' '''')" by (simp add: ex_client_def)
  have h4: "url_Parse ex_lib (path_Join ex_lib (Path (ex_url ''/'' '''')) ''/search'') = Inr ex_rel"
    by (simp add: ex_lib_def ex_url_def)
  from newSearchRequest_sets_client [where query = "Some ?m" and m = ?m and ctx = "()" and options = "[]", OF refl h2 h3 h4]
  obtain m' r where r: "newSearchRequest ex_lib (ex_client \<lparr>resp_StatusCode = 200, resp_Header = json_header, resp_Body = Inr ex_body\<rparr>) () (Some ?m) [] = Inr (Some m', r)"
    and c: "m' ''client'' = Some [appName (ex_client \<lparr>resp_StatusCode = 200, resp_Header = json_header, resp_Body = Inr ex_body\<rparr>)]"
    and f: "\<forall>k. k \<noteq> ''fields'' \<and> k \<noteq> ''client'' \<longrightarrow> m' k = ?m k"
    by blast
  from c have c': "m' ''client'' = Some [''app'']" by (simp add: ex_client_def)
  from f have "m' ''q'' = ?m ''q''" by simp
  then have q: "m' ''q'' = Some [''idol'']" by simp
  from r c' q h2 h3 h4 show ?thesis by blast
qed

section \<open>The examples, evaluated\<close>

lemma ex_Unmarshal_series:
  "json_Unmarshal tp Series_t ex_series_hit = Inr ex_series"
  by code_simp

lemma ex_Unmarshal_asset:
  "json_Unmarshal tp Asset_t ex_asset_hit = Inr ex_asset"
  by code_simp

lemma ex_series_ID: "string_field ex_series ''ID'' = ''s1''"
  by code_simp

lemma ex_asset_VideoID: "string_field ex_asset ''VideoID'' = ''a1''"
  by code_simp

lemma ex_Decode_body:
  "Decoder_Decode tp envelope_t (Inr ex_body)
     = Inr (VStruct [(''TotalHits'', VInt 2),
                     (''Hits'', VSlice (Some [VRawMessage (Some ex_series_hit),
                                              VRawMessage (Some ex_asset_hit)]))])"
  by code_simp

lemma ex_Decode_body_untyped:
  "Decoder_Decode tp envelope_t (Inr ex_body_untyped)
     = Inr (VStruct [(''TotalHits'', VInt 2),
                     (''Hits'', VSlice (Some [VRawMessage (Some ex_series_hit),
                                              VRawMessage (Some ex_untyped_hit)]))])"
  by code_simp

lemma ex_type_members_series: "type_members [(''type'', JStr ''series''), (''id'', JStr ''s1'')] = [JStr ''series'']"
  by code_simp

lemma ex_type_members_asset: "type_members [(''type'', JStr ''movie''), (''video_id'', JStr ''a1'')] = [JStr ''movie'']"
  by code_simp

lemma ex_type_members_untyped: "type_members [(''id'', JStr ''s2'')] = []"
  by code_simp

section \<open>The first pass over a raw hit\<close>

lemma foldName_Type: "foldName ''Type'' = ''TYPE''"
  by code_simp

lemma find_field_peek:
  "find_field [(''Type'', ''Type'', TString)] k
     = (if foldName k = ''TYPE'' then Some (''Type'', TString) else None)"
  using foldName_Type by (auto simp add: find_field_def simp del: foldName.simps)

lemma decode_struct_peek:
  assumes "\<forall>x \<in> set (type_members kvs). string_or_null x"
  shows "decode_struct tp [(''Type'', ''Type'', TString)] kvs [(''Type'', VString c)] None
           = Inr ([(''Type'', VString (last_string c (type_members kvs)))], None)"
  using assms
proof (induction kvs arbitrary: c)
  case Nil
  show ?case by (simp add: type_members_def)
next
  case (Cons kv kvs)
  obtain k x where kv: "kv = (k, x)" by (cases kv)
  show ?case
  proof (cases "foldName k = ''TYPE''")
    case False
    then have tm: "type_members (kv # kvs) = type_members kvs"
      by (simp add: type_members_def kv)
    from Cons.prems tm have "\<forall>x \<in> set (type_members kvs). string_or_null x" by simp
    from Cons.IH [OF this, of c] False tm show ?thesis
      by (simp add: kv find_field_peek del: foldName.simps)
  next
    case True
    then have tm: "type_members (kv # kvs) = x # type_members kvs"
      by (simp add: type_members_def kv)
    from Cons.prems tm have sx: "string_or_null x"
      and rest: "\<forall>x \<in> set (type_members kvs). string_or_null x" by simp_all
    from sx show ?thesis
    proof (cases x)
      case (JStr y)
      with Cons.IH [OF rest, of y] True tm show ?thesis
        by (simp add: kv find_field_peek del: foldName.simps)
    next
      case JNull
      with Cons.IH [OF rest, of c] True tm show ?thesis
        by (simp add: kv find_field_peek del: foldName.simps)
    qed (simp_all add: string_or_null_def)
  qed
qed

lemma Unmarshal_peek:
  assumes "\<forall>x \<in> set (type_members kvs). string_or_null x"
  shows "Unmarshal_raw tp peek_t (Some (JObj kvs))
           = Inr (VStruct [(''Type'', VString (last_string '''' (type_members kvs)))])"
  using decode_struct_peek [OF assms, of tp "''''"]
  by (simp add: Unmarshal_raw_def json_Unmarshal_def peek_t_def)

lemma last_string_empty:
  "\<forall>x \<in> set xs. x = JStr '''' \<or> x = JNull \<Longrightarrow> last_string '''' xs = ''''"
  by (induction xs) auto

lemma string_field_Type: "string_field (VStruct [(''Type'', VString c)]) ''Type'' = c"
  by (simp add: string_field_def field_def)

section \<open>The loop over the hits\<close>

lemma hits_loop_prefix:
  assumes "list_all2 (\<lambda>x hit. decode_hit l x = Inr hit) pre hits"
  shows "hits_loop l (pre @ rest) r = hits_loop l rest (r\<lparr>Hits := Hits r @ hits\<rparr>)"
  using assms
proof (induction pre hits arbitrary: r rule: list_all2_induct)
  case Nil
  show ?case by simp
next
  case (Cons x pre hit hits)
  from Cons.hyps(1) Cons.IH [of "r\<lparr>Hits := Hits r @ [hit]\<rparr>"] show ?case by simp
qed

lemma hits_loop_success:
  assumes "hits_loop l hs r = (r', None)"
  shows "\<exists>hits. list_all2 (\<lambda>x hit. decode_hit l x = Inr hit) hs hits
            \<and> r' = r\<lparr>Hits := Hits r @ hits\<rparr>"
  using assms
proof (induction hs arbitrary: r)
  case Nil
  then show ?case by simp
next
  case (Cons h hs)
  from Cons.prems obtain hit where h: "decode_hit l h = Inr hit"
    and rest: "hits_loop l hs (r\<lparr>Hits := Hits r @ [hit]\<rparr>) = (r', None)"
    by (auto split: sum.splits)
  from Cons.IH [OF rest] obtain hits
    where a: "list_all2 (\<lambda>x hit. decode_hit l x = Inr hit) hs hits"
      and b: "r' = r\<lparr>Hits := Hits r @ [hit] @ hits\<rparr>"
    by auto
  from h a have "list_all2 (\<lambda>x hit. decode_hit l x = Inr hit) (h # hs) (hit # hits)" by simp
  with b show ?case by (intro exI [of _ "hit # hits"]) simp
qed

lemma makeResponse_decoded:
  assumes "Decoder_Decode (time_Parse l) envelope_t (resp_Body resp) = Inr v"
  shows "makeResponse l req resp
           = hits_loop l (raw_slice_field v ''Hits'')
               \<lparr>TotalHits = int_field v ''TotalHits'', Hits = [], Meta = response_meta req resp\<rparr>"
  using assms by (simp add: makeResponse_def)

lemma makeResponse_fails_at:
  assumes "Decoder_Decode (time_Parse l) envelope_t (resp_Body resp) = Inr v"
    and "raw_slice_field v ''Hits'' = pre @ h # post"
    and "list_all2 (\<lambda>x hit. decode_hit l x = Inr hit) pre hits"
    and "decode_hit l h = Inl err"
  shows "makeResponse l req resp
           = (\<lparr>TotalHits = int_field v ''TotalHits'', Hits = hits, Meta = response_meta req resp\<rparr>,
              Some err)"
  using makeResponse_decoded [OF assms(1), of req] assms(2) assms(4)
    hits_loop_prefix [OF assms(3)]
  by simp

text \<open>
  C2. Take a raw hit that is an object whose members named \<^verbatim>\<open>type\<close> (in any letter case)
  are strings or \<^verbatim>\<open>null\<close>, and let \<open>ty\<close>, the last string among them, be non-empty. If
  \<open>ty\<close> is \<^verbatim>\<open>series\<close> the element is decoded as a \<^verbatim>\<open>Series\<close> and the hit is that
  series; for every other \<open>ty\<close> it is decoded as an \<^verbatim>\<open>Asset\<close> and the hit is that asset.
  The iteration fails exactly when that second decoding fails.
\<close>

theorem decode_hit_variant:
  assumes "\<forall>x \<in> set (type_members kvs). string_or_null x"
    and "last_string '''' (type_members kvs) = ty"
    and "ty \<noteq> ''''"
  shows "decode_hit l (Some (JObj kvs))
           = (if ty = ''series'' then
                (case Unmarshal_raw (time_Parse l) Series_t (Some (JObj kvs)) of
                   Inl err \<Rightarrow> Inl (JSONError err)
                 | Inr series \<Rightarrow> Inr (SeriesHit series))
              else
                (case Unmarshal_raw (time_Parse l) Asset_t (Some (JObj kvs)) of
                   Inl err \<Rightarrow> Inl (JSONError err)
                 | Inr asset \<Rightarrow> Inr (AssetHit asset)))"
  using Unmarshal_peek [OF assms(1), of "time_Parse l"] assms(2) assms(3)
  by (simp add: decode_hit_def string_field_Type)

text \<open>
  C3. Let the body decode, and let the hit array hold, after elements that all decode, an
  object whose members named \<^verbatim>\<open>type\<close> (in any letter case) are all the empty string or
  \<^verbatim>\<open>null\<close>, among them an object with no such member. Then \<^verbatim>\<open>makeResponse\<close> returns
  \<^verbatim>\<open>ErrTypeMissing\<close>, and the response returned with it holds the total count and exactly
  the hits decoded from the elements before that one, in their order.
\<close>

theorem makeResponse_type_missing:
  assumes "Decoder_Decode (time_Parse l) envelope_t (resp_Body resp) = Inr v"
    and "raw_slice_field v ''Hits'' = pre @ Some (JObj kvs) # post"
    and "list_all2 (\<lambda>x hit. decode_hit l x = Inr hit) pre hits"
    and "\<forall>x \<in> set (type_members kvs). x = JStr '''' \<or> x = JNull"
  shows "makeResponse l req resp
           = (\<lparr>TotalHits = int_field v ''TotalHits'', Hits = hits, Meta = response_meta req resp\<rparr>,
              Some ErrTypeMissing)"
proof -
  from assms(4) have sn: "\<forall>x \<in> set (type_members kvs). string_or_null x"
    by (auto simp: string_or_null_def)
  have "decode_hit l (Some (JObj kvs)) = Inl ErrTypeMissing"
    using Unmarshal_peek [OF sn, of "time_Parse l"] last_string_empty [OF assms(4)]
    by (simp add: decode_hit_def string_field_Type)
  from makeResponse_fails_at [OF assms(1) assms(2) assms(3) this] show ?thesis .
qed

section \<open>The examples, decoded\<close>

lemma ex_decode_hit_series: "decode_hit l (Some ex_series_hit) = Inr (SeriesHit ex_series)"
proof -
  have sn: "\<forall>x \<in> set (type_members [(''type'', JStr ''series''), (''id'', JStr ''s1'')]). string_or_null x"
    by (simp add: ex_type_members_series string_or_null_def)
  from Unmarshal_peek [OF sn, of "time_Parse l"] ex_Unmarshal_series [of "time_Parse l"]
  show ?thesis
    by (simp add: decode_hit_def string_field_Type ex_type_members_series Unmarshal_raw_def
        ex_series_hit_def)
qed

lemma ex_decode_hit_asset: "decode_hit l (Some ex_asset_hit) = Inr (AssetHit ex_asset)"
proof -
  have sn: "\<forall>x \<in> set (type_members [(''type'', JStr ''movie''), (''video_id'', JStr ''a1'')]). string_or_null x"
    by (simp add: ex_type_members_asset string_or_null_def)
  from Unmarshal_peek [OF sn, of "time_Parse l"] ex_Unmarshal_asset [of "time_Parse l"]
  show ?thesis
    by (simp add: decode_hit_def string_field_Type ex_type_members_asset Unmarshal_raw_def
        ex_asset_hit_def)
qed

lemma ex_raw_hits:
  "raw_slice_field (VStruct [(''TotalHits'', VInt 2),
                             (''Hits'', VSlice (Some [VRawMessage (Some a), VRawMessage (Some b)]))]) ''Hits''
     = [Some a, Some b]"
  by (simp add: raw_slice_field_def field_def)

lemma ex_total_hits:
  "int_field (VStruct [(''TotalHits'', VInt 2), (''Hits'', x)]) ''TotalHits'' = 2"
  by (simp add: int_field_def field_def)

lemma ex_makeResponse:
  assumes "resp_Body resp = Inr ex_body"
  shows "makeResponse l req resp
           = (\<lparr>TotalHits = 2, Hits = [SeriesHit ex_series, AssetHit ex_asset],
               Meta = response_meta req resp\<rparr>, None)"
  using assms
  by (simp add: makeResponse_def ex_Decode_body ex_raw_hits ex_total_hits
      ex_decode_hit_series ex_decode_hit_asset)

lemma ex_newSearchRequest_nil:
  "newSearchRequest ex_lib (ex_client resp) () None []
     = Inr (None, Inr (ex_request ''''))"
  by (simp add: newSearchRequest_def ex_lib_def ex_client_def ex_url_def ex_rel_def
      ensureCorrectFieldsParam_def Values_Get_def set_client_def ex_Encode_def ex_request_def)

lemma ex_isJSON_untyped: "isJSONResponse ex_lib ex_response_untyped"
  by (simp add: ex_lib_def ex_response_untyped_def isJSONResponse_spec_json)

lemma ex_meta_untyped:
  "response_meta (ex_request '''') ex_response_untyped
     = \<lparr>StatusCode = 200, Header = Some json_header, RequestURL = Some (ex_url ''/search'' '''')\<rparr>"
  by (simp add: response_meta_def ex_request_def ex_response_untyped_def)

text \<open>
  The two typed hits of the example, one with the type \<^verbatim>\<open>series\<close> and one
  with another type.
\<close>

theorem decode_hit_variant_witness:
  "type_members [(''type'', JStr ''series''), (''id'', JStr ''s1'')] = [JStr ''series'']
   \<and> string_or_null (JStr ''series'')
   \<and> last_string '''' [JStr ''series''] = ''series''
   \<and> decode_hit ex_lib (Some (JObj [(''type'', JStr ''series''), (''id'', JStr ''s1'')]))
        = Inr (SeriesHit ex_series)
   \<and> type_members [(''type'', JStr ''movie''), (''video_id'', JStr ''a1'')] = [JStr ''movie'']
   \<and> string_or_null (JStr ''movie'')
   \<and> last_string '''' [JStr ''movie''] = ''movie''
   \<and> decode_hit ex_lib (Some (JObj [(''type'', JStr ''movie''), (''video_id'', JStr ''a1'')]))
        = Inr (AssetHit ex_asset)"
proof -
  let ?s = "[(''type'', JStr ''series''), (''id'', JStr ''s1'')]"
  let ?a = "[(''type'', JStr ''movie''), (''video_id'', JStr ''a1'')]"
  have s1: "\<forall>x \<in> set (type_members ?s). string_or_null x"
    by (simp add: ex_type_members_series string_or_null_def)
  have s2: "last_string '''' (type_members ?s) = ''series''"
    by (simp add: ex_type_members_series)
  have a1: "\<forall>x \<in> set (type_members ?a). string_or_null x"
    by (simp add: ex_type_members_asset string_or_null_def)
  have a2: "last_string '''' (type_members ?a) = ''movie''"
    by (simp add: ex_type_members_asset)
  have us: "Unmarshal_raw (time_Parse ex_lib) Series_t (Some (JObj ?s)) = Inr ex_series"
    using ex_Unmarshal_series [of "time_Parse ex_lib"]
    by (simp add: Unmarshal_raw_def ex_series_hit_def)
  have ua: "Unmarshal_raw (time_Parse ex_lib) Asset_t (Some (JObj ?a)) = Inr ex_asset"
    using ex_Unmarshal_asset [of "time_Parse ex_lib"]
    by (simp add: Unmarshal_raw_def ex_asset_hit_def)
  have r1: "decode_hit ex_lib (Some (JObj ?s)) = Inr (SeriesHit ex_series)"
    using decode_hit_variant [OF s1 s2, of ex_lib] us by simp
  have r2: "decode_hit ex_lib (Some (JObj ?a)) = Inr (AssetHit ex_asset)"
    using decode_hit_variant [OF a1 a2, of ex_lib] ua by simp
  from r1 r2 show ?thesis
    by (simp add: ex_type_members_series ex_type_members_asset string_or_null_def)
qed

text \<open>
  The body whose second hit has no \<^verbatim>\<open>type\<close>; the first hit is kept.
\<close>

theorem makeResponse_type_missing_witness:
  "Decoder_Decode (time_Parse ex_lib) envelope_t (resp_Body ex_response_untyped)
     = Inr (VStruct [(''TotalHits'', VInt 2),
                     (''Hits'', VSlice (Some [VRawMessage (Some ex_series_hit),
                                              VRawMessage (Some ex_untyped_hit)]))])
   \<and> decode_hit ex_lib (Some ex_series_hit) = Inr (SeriesHit ex_series)
   \<and> type_members [(''id'', JStr ''s2'')] = []
   \<and> makeResponse ex_lib (ex_request '''') ex_response_untyped
       = (\<lparr>TotalHits = 2, Hits = [SeriesHit ex_series],
           Meta = response_meta (ex_request '''') ex_response_untyped\<rparr>,
          Some ErrTypeMissing)"
proof -
  let ?v = "VStruct [(''TotalHits'', VInt 2),
                     (''Hits'', VSlice (Some [VRawMessage (Some ex_series_hit),
                                              VRawMessage (Some ex_untyped_hit)]))]"
  have h1: "Decoder_Decode (time_Parse ex_lib) envelope_t (resp_Body ex_response_untyped) = Inr ?v"
    by (simp add: ex_response_untyped_def ex_Decode_body_untyped)
  have h2: "raw_slice_field ?v ''Hits''
              = [Some ex_series_hit] @ Some (JObj [(''id'', JStr ''s2'')]) # []"
    by (simp add: ex_raw_hits ex_untyped_hit_def)
  have h3: "list_all2 (\<lambda>x hit. decode_hit ex_lib x = Inr hit) [Some ex_series_hit] [SeriesHit ex_series]"
    by (simp add: ex_decode_hit_series)
  have h4: "\<forall>x \<in> set (type_members [(''id'', JStr ''s2'')]). x = JStr '''' \<or> x = JNull"
    by (simp add: ex_type_members_untyped)
  from makeResponse_type_missing [OF h1 h2 h3 h4, of "ex_request ''''"] h1
  show ?thesis
    by (simp add: ex_total_hits ex_decode_hit_series ex_type_members_untyped)
qed

text \<open>
  C8. Whenever \<^verbatim>\<open>makeResponse\<close> returns without an error, the body decoded, the total
  count is the one of the body, there are as many hits as elements of the array, and hit
  \<open>i\<close> is what element \<open>i\<close> decodes to. The body
  \<^verbatim>\<open>{"total_hits":2,"assets":[{"type":"series","id":"s1"},{"type":"movie","video_id":"a1"}]}\<close>
  gives the total count 2, a first hit that is a series with the ID \<^verbatim>\<open>s1\<close>, and a second
  hit that is an asset with the video ID \<^verbatim>\<open>a1\<close>.
\<close>

theorem makeResponse_order_preserving:
  "(makeResponse l req resp = (r, None) \<longrightarrow>
      (\<exists>v. Decoder_Decode (time_Parse l) envelope_t (resp_Body resp) = Inr v
          \<and> TotalHits r = int_field v ''TotalHits''
          \<and> length (Hits r) = length (raw_slice_field v ''Hits'')
          \<and> (\<forall>i < length (Hits r).
                decode_hit l (raw_slice_field v ''Hits'' ! i) = Inr (Hits r ! i))))
   \<and> (resp_Body resp = Inr ex_body \<longrightarrow>
        makeResponse l req resp
          = (\<lparr>TotalHits = 2, Hits = [SeriesHit ex_series, AssetHit ex_asset],
              Meta = response_meta req resp\<rparr>, None)
        \<and> string_field ex_series ''ID'' = ''s1''
        \<and> string_field ex_asset ''VideoID'' = ''a1'')"
proof (rule conjI; rule impI)
  assume ok: "makeResponse l req resp = (r, None)"
  then obtain v where v: "Decoder_Decode (time_Parse l) envelope_t (resp_Body resp) = Inr v"
    by (cases "Decoder_Decode (time_Parse l) envelope_t (resp_Body resp)")
       (auto simp: makeResponse_def)
  let ?r0 = "\<lparr>TotalHits = int_field v ''TotalHits'', Hits = [], Meta = response_meta req resp\<rparr>"
  from ok makeResponse_decoded [OF v, of req]
  have "hits_loop l (raw_slice_field v ''Hits'') ?r0 = (r, None)" by simp
  from hits_loop_success [OF this] obtain hits
    where a: "list_all2 (\<lambda>x hit. decode_hit l x = Inr hit) (raw_slice_field v ''Hits'') hits"
      and b: "r = ?r0\<lparr>Hits := Hits ?r0 @ hits\<rparr>"
    by blast
  from b have hr: "Hits r = hits" and tr: "TotalHits r = int_field v ''TotalHits''" by simp_all
  from a hr have len: "length (Hits r) = length (raw_slice_field v ''Hits'')"
    by (simp add: list_all2_lengthD)
  from a hr have nth: "\<forall>i < length (Hits r).
      decode_hit l (raw_slice_field v ''Hits'' ! i) = Inr (Hits r ! i)"
    by (simp add: list_all2_conv_all_nth)
  from v tr len nth
  show "\<exists>v. Decoder_Decode (time_Parse l) envelope_t (resp_Body resp) = Inr v
          \<and> TotalHits r = int_field v ''TotalHits''
          \<and> length (Hits r) = length (raw_slice_field v ''Hits'')
          \<and> (\<forall>i < length (Hits r).
                decode_hit l (raw_slice_field v ''Hits'' ! i) = Inr (Hits r ! i))"
    by blast
next
  assume "resp_Body resp = Inr ex_body"
  then show "makeResponse l req resp
          = (\<lparr>TotalHits = 2, Hits = [SeriesHit ex_series, AssetHit ex_asset],
              Meta = response_meta req resp\<rparr>, None)
        \<and> string_field ex_series ''ID'' = ''s1''
        \<and> string_field ex_asset ''VideoID'' = ''a1''"
    by (simp add: ex_makeResponse ex_series_ID ex_asset_VideoID)
qed

theorem makeResponse_order_preserving_witness:
  "resp_Body ex_response = Inr ex_body
   \<and> makeResponse ex_lib (ex_request '''') ex_response
       = (\<lparr>TotalHits = 2, Hits = [SeriesHit ex_series, AssetHit ex_asset],
           Meta = response_meta (ex_request '''') ex_response\<rparr>, None)
   \<and> string_field ex_series ''ID'' = ''s1''
   \<and> string_field ex_asset ''VideoID'' = ''a1''
   \<and> length [SeriesHit ex_series, AssetHit ex_asset]
       = length (raw_slice_field
                   (VStruct [(''TotalHits'', VInt 2),
                             (''Hits'', VSlice (Some [VRawMessage (Some ex_series_hit),
                                                      VRawMessage (Some ex_asset_hit)]))]) ''Hits'')"
proof -
  let ?r = "\<lparr>TotalHits = 2, Hits = [SeriesHit ex_series, AssetHit ex_asset],
             Meta = response_meta (ex_request '''') ex_response\<rparr>"
  let ?v = "VStruct [(''TotalHits'', VInt 2),
                     (''Hits'', VSlice (Some [VRawMessage (Some ex_series_hit),
                                              VRawMessage (Some ex_asset_hit)]))]"
  note t = makeResponse_order_preserving [of ex_lib "ex_request ''''" ex_response ?r]
  have b: "resp_Body ex_response = Inr ex_body" by (simp add: ex_response_def)
  from t b have m: "makeResponse ex_lib (ex_request '''') ex_response = (?r, None)"
    and s: "string_field ex_series ''ID'' = ''s1''"
    and a: "string_field ex_asset ''VideoID'' = ''a1''"
    by blast+
  from t m obtain v
    where v: "Decoder_Decode (time_Parse ex_lib) envelope_t (resp_Body ex_response) = Inr v"
      and len: "length (Hits ?r) = length (raw_slice_field v ''Hits'')"
    by blast
  from v b have "v = ?v" by (simp add: ex_Decode_body)
  with len have "length [SeriesHit ex_series, AssetHit ex_asset] = length (raw_slice_field ?v ''Hits'')"
    by simp
  with b m s a show ?thesis by blast
qed

section \<open>A hit that fails to decode\<close>

text \<open>
  A response whose partial result does not reach the caller: the body
  \<^verbatim>\<open>{"total_hits":2,"assets":[{"type":"series","id":"s1"},{"id":"s2"}]}\<close> with status 200 and
  a JSON content type. \<^verbatim>\<open>makeResponse\<close> returns \<^verbatim>\<open>ErrTypeMissing\<close> with the total count 2
  and the first hit; \<^verbatim>\<open>Search\<close> returns the error with a response that has neither.
\<close>

theorem Search_discards_partial_hits:
  "Search ex_lib (ex_client ex_response_untyped) () None []
     = Inr (None,
            \<lparr>TotalHits = 0, Hits = [],
             Meta = \<lparr>StatusCode = 200, Header = Some json_header,
                     RequestURL = Some (ex_url ''/search'' '''')\<rparr>\<rparr>,
            Some ErrTypeMissing)
   \<and> makeResponse ex_lib (ex_request '''') ex_response_untyped
       = (\<lparr>TotalHits = 2, Hits = [SeriesHit ex_series],
           Meta = \<lparr>StatusCode = 200, Header = Some json_header,
                   RequestURL = Some (ex_url ''/search'' '''')\<rparr>\<rparr>,
          Some ErrTypeMissing)"
proof -
  have d: "decode_hit ex_lib (Some ex_untyped_hit) = Inl ErrTypeMissing"
  proof -
    have sn: "\<forall>x \<in> set (type_members [(''id'', JStr ''s2'')]). string_or_null x"
      by (simp add: ex_type_members_untyped)
    from Unmarshal_peek [OF sn, of "time_Parse ex_lib"] show ?thesis
      by (simp add: decode_hit_def string_field_Type ex_type_members_untyped ex_untyped_hit_def)
  qed
  have m: "makeResponse ex_lib (ex_request '''') ex_response_untyped
       = (\<lparr>TotalHits = 2, Hits = [SeriesHit ex_series],
           Meta = response_meta (ex_request '''') ex_response_untyped\<rparr>,
          Some ErrTypeMissing)"
    by (simp add: makeResponse_def ex_response_untyped_def ex_Decode_body_untyped ex_raw_hits
        ex_total_hits ex_decode_hit_series d)
  have h2: "httpClient (ex_client ex_response_untyped) (ex_request '''') = Inr ex_response_untyped"
    by (simp add: ex_client_def)
  have st: "resp_StatusCode ex_response_untyped = 200"
    by (simp add: ex_response_untyped_def)
  from Search_response [OF ex_newSearchRequest_nil h2] st ex_isJSON_untyped m
  have "Search ex_lib (ex_client ex_response_untyped) () None []
          = Inr (None, Response_Meta (response_meta (ex_request '''') ex_response_untyped),
                 Some ErrTypeMissing)"
    by simp
  with m show ?thesis
    by (simp add: ex_meta_untyped Response_Meta_def)
qed

text \<open>
  C1, amended. For a response with status 200 and a JSON content type whose body decodes
  and whose hit array fails to decode at some element, after elements that all decode:
  \<^verbatim>\<open>makeResponse\<close> returns the error together with the total count and the hits decoded
  from the elements before that one; \<^verbatim>\<open>Search\<close> returns the same error together with a
  response that carries the meta data only, with no hits and the total count 0.
\<close>

theorem Search_returns_error_with_meta_only:
  assumes "newSearchRequest l c ctx query options = Inr (query', Inr req)"
    and "httpClient c req = Inr resp"
    and "resp_StatusCode resp = 200"
    and "isJSONResponse l resp"
    and "Decoder_Decode (time_Parse l) envelope_t (resp_Body resp) = Inr v"
    and "raw_slice_field v ''Hits'' = pre @ h # post"
    and "list_all2 (\<lambda>x hit. decode_hit l x = Inr hit) pre hits"
    and "decode_hit l h = Inl err"
  shows "makeResponse l req resp
           = (\<lparr>TotalHits = int_field v ''TotalHits'', Hits = hits, Meta = response_meta req resp\<rparr>,
              Some err)
       \<and> Search l c ctx query options
           = Inr (query', \<lparr>TotalHits = 0, Hits = [], Meta = response_meta req resp\<rparr>, Some err)"
proof -
  note m = makeResponse_fails_at [OF assms(5) assms(6) assms(7) assms(8), of req]
  from Search_response [OF assms(1) assms(2)] assms(3) assms(4) m
  have "Search l c ctx query options
          = Inr (query', Response_Meta (response_meta req resp), Some err)"
    by simp
  with m show ?thesis by (simp add: Response_Meta_def)
qed

theorem Search_returns_error_with_meta_only_witness:
  "newSearchRequest ex_lib (ex_client ex_response_untyped) () None []
     = Inr (None, Inr (ex_request ''''))
   \<and> httpClient (ex_client ex_response_untyped) (ex_request '''') = Inr ex_response_untyped
   \<and> resp_StatusCode ex_response_untyped = 200
   \<and> isJSONResponse ex_lib ex_response_untyped
   \<and> decode_hit ex_lib (Some ex_series_hit) = Inr (SeriesHit ex_series)
   \<and> decode_hit ex_lib (Some ex_untyped_hit) = Inl ErrTypeMissing
   \<and> makeResponse ex_lib (ex_request '''') ex_response_untyped
       = (\<lparr>TotalHits = 2, Hits = [SeriesHit ex_series],
           Meta = response_meta (ex_request '''') ex_response_untyped\<rparr>,
          Some ErrTypeMissing)
   \<and> Search ex_lib (ex_client ex_response_untyped) () None []
       = Inr (None,
              \<lparr>TotalHits = 0, Hits = [], Meta = response_meta (ex_request '''') ex_response_untyped\<rparr>,
              Some ErrTypeMissing)"
proof -
  let ?v = "VStruct [(''TotalHits'', VInt 2),
                     (''Hits'', VSlice (Some [VRawMessage (Some ex_series_hit),
                                              VRawMessage (Some ex_untyped_hit)]))]"
  have h2: "httpClient (ex_client ex_response_untyped) (ex_request '''') = Inr ex_response_untyped"
    by (simp add: ex_client_def)
  have h3: "resp_StatusCode ex_response_untyped = 200"
    by (simp add: ex_response_untyped_def)
  have h5: "Decoder_Decode (time_Parse ex_lib) envelope_t (resp_Body ex_response_untyped) = Inr ?v"
    by (simp add: ex_response_untyped_def ex_Decode_body_untyped)
  have h6: "raw_slice_field ?v ''Hits'' = [Some ex_series_hit] @ Some ex_untyped_hit # []"
    by (simp add: ex_raw_hits)
  have h7: "list_all2 (\<lambda>x hit. decode_hit ex_lib x = Inr hit) [Some ex_series_hit] [SeriesHit ex_series]"
    by (simp add: ex_decode_hit_series)
  have h8: "decode_hit ex_lib (Some ex_untyped_hit) = Inl ErrTypeMissing"
  proof -
    have sn: "\<forall>x \<in> set (type_members [(''id'', JStr ''s2'')]). string_or_null x"
      by (simp add: ex_type_members_untyped)
    from Unmarshal_peek [OF sn, of "time_Parse ex_lib"] show ?thesis
      by (simp add: decode_hit_def string_field_Type ex_type_members_untyped ex_untyped_hit_def)
  qed
  from Search_returns_error_with_meta_only
    [OF ex_newSearchRequest_nil h2 h3 ex_isJSON_untyped h5 h6 h7 h8]
    ex_newSearchRequest_nil h2 h3 ex_isJSON_untyped h8
  show ?thesis
    by (simp add: ex_total_hits ex_decode_hit_series)
qed

section \<open>The JSON check on the content type\<close>

lemma trim_space_decomp:
  "\<exists>pre post. p = pre @ trim_space p @ post
      \<and> (\<forall>c \<in> set pre. is_space c) \<and> (\<forall>c \<in> set post. is_space c)"
proof -
  let ?q = "dropWhile is_space p"
  let ?post = "rev (takeWhile is_space (rev ?q))"
  have "rev (dropWhile is_space (rev ?q)) @ rev (takeWhile is_space (rev ?q))
          = rev (takeWhile is_space (rev ?q) @ dropWhile is_space (rev ?q))"
    by (simp only: rev_append)
  also have "\<dots> = rev (rev ?q)" by (simp only: takeWhile_dropWhile_id)
  also have "\<dots> = ?q" by (simp only: rev_rev_ident)
  finally have e: "rev (dropWhile is_space (rev ?q)) @ rev (takeWhile is_space (rev ?q)) = ?q" .
  have q: "?q = trim_space p @ ?post"
    using e unfolding trim_space_def by (rule sym)
  have "p = takeWhile is_space p @ ?q" by simp
  with q have "p = takeWhile is_space p @ trim_space p @ ?post" by simp
  moreover have "\<forall>c \<in> set (takeWhile is_space p). is_space c"
    by (auto dest: set_takeWhileD)
  moreover have "\<forall>c \<in> set ?post. is_space c"
    by (auto dest: set_takeWhileD)
  ultimately show ?thesis by blast
qed

lemma trim_space_core:
  assumes "\<forall>c \<in> set pre. is_space c"
    and "\<forall>c \<in> set post. is_space c"
    and "w \<noteq> []"
    and "\<not> is_space (hd w)"
    and "\<not> is_space (last w)"
  shows "trim_space (pre @ w @ post) = w"
proof -
  from assms(3) assms(4) have dw: "dropWhile is_space (w @ post) = w @ post"
    by (cases w) auto
  from assms(1) have "dropWhile is_space (pre @ w @ post) = dropWhile is_space (w @ post)"
    by (simp add: dropWhile_append2)
  with dw have d1: "dropWhile is_space (pre @ w @ post) = w @ post" by simp
  from assms(3) assms(5) have "\<not> is_space (hd (rev w))" and rw: "rev w \<noteq> []"
    by (simp_all add: hd_rev)
  then have dr: "dropWhile is_space (rev w) = rev w"
    by (cases "rev w") auto
  from assms(2) have "dropWhile is_space (rev post @ rev w) = dropWhile is_space (rev w)"
    by (intro dropWhile_append2) auto
  with dr have "dropWhile is_space (rev (w @ post)) = rev w" by simp
  with d1 show ?thesis by (simp add: trim_space_def)
qed

lemma is_space_not_semicolon: "is_space c \<Longrightarrow> c \<noteq> CHR '';''"
  by (auto simp: is_space_def)

lemma isJSONContentType_shape:
  "isJSONContentType ct \<longleftrightarrow>
     (\<exists>pre post rest. ct = pre @ ''application/json'' @ post @ rest
        \<and> (\<forall>c \<in> set pre. is_space c) \<and> (\<forall>c \<in> set post. is_space c)
        \<and> (rest = [] \<or> (\<exists>r. rest = CHR '';'' # r)))"
proof
  assume j: "isJSONContentType ct"
  let ?p = "takeWhile (\<lambda>c. c \<noteq> CHR '';'') ct"
  let ?rest = "dropWhile (\<lambda>c. c \<noteq> CHR '';'') ct"
  from j have t: "trim_space ?p = ''application/json''"
    by (simp add: isJSONContentType_def media_type_def)
  from trim_space_decomp [of ?p] t obtain pre post
    where p: "?p = pre @ ''application/json'' @ post"
      and a: "\<forall>c \<in> set pre. is_space c" and b: "\<forall>c \<in> set post. is_space c"
    by auto
  have "ct = ?p @ ?rest" by simp
  with p have c: "ct = pre @ ''application/json'' @ post @ ?rest" by simp
  have r: "?rest = [] \<or> (\<exists>r. ?rest = CHR '';'' # r)"
  proof (cases ?rest)
    case Nil
    then show ?thesis by simp
  next
    case (Cons x xs)
    then have "?rest \<noteq> []" by simp
    from hd_dropWhile [OF this] Cons have "x = CHR '';''" by simp
    with Cons show ?thesis by simp
  qed
  from c a b r
  show "\<exists>pre post rest. ct = pre @ ''application/json'' @ post @ rest
        \<and> (\<forall>c \<in> set pre. is_space c) \<and> (\<forall>c \<in> set post. is_space c)
        \<and> (rest = [] \<or> (\<exists>r. rest = CHR '';'' # r))"
    by blast
next
  assume "\<exists>pre post rest. ct = pre @ ''application/json'' @ post @ rest
        \<and> (\<forall>c \<in> set pre. is_space c) \<and> (\<forall>c \<in> set post. is_space c)
        \<and> (rest = [] \<or> (\<exists>r. rest = CHR '';'' # r))"
  then obtain pre post rest
    where c: "ct = pre @ ''application/json'' @ post @ rest"
      and a: "\<forall>c \<in> set pre. is_space c" and b: "\<forall>c \<in> set post. is_space c"
      and r: "rest = [] \<or> (\<exists>r. rest = CHR '';'' # r)"
    by blast
  let ?w = "pre @ ''application/json'' @ post"
  from a b have ns: "\<forall>c \<in> set ?w. c \<noteq> CHR '';''"
    by (auto dest: is_space_not_semicolon)
  from r have tr: "takeWhile (\<lambda>c. c \<noteq> CHR '';'') rest = []" by auto
  from ns have "takeWhile (\<lambda>c. c \<noteq> CHR '';'') (?w @ rest)
                  = ?w @ takeWhile (\<lambda>c. c \<noteq> CHR '';'') rest"
    by (intro takeWhile_append2) auto
  with tr c have tw: "takeWhile (\<lambda>c. c \<noteq> CHR '';'') ct = ?w" by simp
  have "trim_space ?w = ''application/json''"
    by (rule trim_space_core [OF a b]) (simp_all add: is_space_def)
  with tw show "isJSONContentType ct"
    by (simp add: isJSONContentType_def media_type_def)
qed

lemma isJSONContentType_examples:
  "isJSONContentType ''application/json; charset=utf-8''"
  "isJSONContentType ''application/json; charset=iso-8859-1''"
  "isJSONContentType ''application/json''"
  "\<not> isJSONContentType ''text/plain''"
  "\<not> isJSONContentType ''randomnoiseapplication/jsonrandomnoise''"
  "\<not> isJSONContentType ''Application/JSON''"
  by (simp_all add: isJSONContentType_def media_type_def trim_space_def is_space_def)

text \<open>
  C9. The check modelled from the spec classifies a content-type string as JSON exactly
  when it is \<^verbatim>\<open>application/json\<close> between leading and trailing whitespace, followed by
  nothing or by a \<^verbatim>\<open>;\<close> and anything; the comparison is case-sensitive. The five strings
  of the test are classified as the test expects. A response without a content type is
  not JSON, and of several values the first decides.
\<close>

theorem isJSONContentType_characterised:
  "(isJSONContentType ct \<longleftrightarrow>
      (\<exists>pre post rest. ct = pre @ ''application/json'' @ post @ rest
         \<and> (\<forall>c \<in> set pre. is_space c) \<and> (\<forall>c \<in> set post. is_space c)
         \<and> (rest = [] \<or> (\<exists>r. rest = CHR '';'' # r))))
   \<and> isJSONContentType ''application/json; charset=utf-8''
   \<and> isJSONContentType ''application/json; charset=iso-8859-1''
   \<and> isJSONContentType ''application/json''
   \<and> \<not> isJSONContentType ''text/plain''
   \<and> \<not> isJSONContentType ''randomnoiseapplication/jsonrandomnoise''
   \<and> \<not> isJSONContentType ''Application/JSON''
   \<and> (resp_Header resp ''Content-Type'' = None \<longrightarrow> \<not> isJSONResponse_spec resp)
   \<and> (resp_Header resp ''Content-Type'' = Some [] \<longrightarrow> \<not> isJSONResponse_spec resp)
   \<and> (resp_Header resp ''Content-Type'' = Some (ct # cts) \<longrightarrow>
        isJSONResponse_spec resp = isJSONContentType ct)"
  using isJSONContentType_shape [of ct] isJSONContentType_examples
  by (simp add: isJSONResponse_spec_def)

theorem isJSONContentType_characterised_witness:
  "resp_Header \<lparr>resp_StatusCode = 200, resp_Header = json_header, resp_Body = Inr ex_body\<rparr> ''Content-Type''
     = Some (''application/json; charset=utf-8'' # [])
   \<and> isJSONResponse_spec \<lparr>resp_StatusCode = 200, resp_Header = json_header, resp_Body = Inr ex_body\<rparr>
   \<and> isJSONContentType ''application/json; charset=utf-8''
   \<and> ''application/json; charset=utf-8'' = [] @ ''application/json'' @ [] @ ''; charset=utf-8''"
proof -
  let ?resp = "\<lparr>resp_StatusCode = 200, resp_Header = json_header, resp_Body = Inr ex_body\<rparr>"
  have h: "resp_Header ?resp ''Content-Type'' = Some (''application/json; charset=utf-8'' # [])"
    by (simp add: json_header_def)
  note t = isJSONContentType_characterised
    [of "''application/json; charset=utf-8''" ?resp "[]"]
  from t have j: "isJSONContentType ''application/json; charset=utf-8''" by blast
  from t h have "isJSONResponse_spec ?resp = isJSONContentType ''application/json; charset=utf-8''"
    by blast
  with j have "isJSONResponse_spec ?resp" by simp
  with h j show ?thesis by simp
qed

end
